theory Spec2Isabelle
  imports Main "HOL-Library.Sublist" "HOL-Library.Multiset"
begin

section \<open>Aurora cluster scheduled stop/start: the data model\<close>

text \<open>
  The module \<^verbatim>\<open>scripts/aurora_cluster_scheduler.py\<close> works on the dictionaries that the
  RDS API returns. A cluster descriptor, a tag and the invocation event are Python dicts
  with string keys whose values, as far as the module reads them, are strings; they are
  maps from \<open>string\<close> to \<open>string\<close> here. A response of the API is a dict whose
  entries \<^verbatim>\<open>"DBClusters"\<close> and \<^verbatim>\<open>"TagList"\<close> are lists of such dicts.
  A subscript \<^verbatim>\<open>d[k]\<close> on a missing key raises \<^verbatim>\<open>KeyError\<close>, \<^verbatim>\<open>xs[0]\<close> on an empty list
  raises \<^verbatim>\<open>IndexError\<close>; both are values of the type \<open>exn\<close> below.
\<close>

type_synonym pydict = "string \<rightharpoonup> string"

type_synonym response = "string \<rightharpoonup> pydict list"

text \<open>
  Python exceptions, all of them subclasses of \<^verbatim>\<open>Exception\<close>. The fault class
  \<^verbatim>\<open>rds_client.exceptions.InvalidDBClusterStateFault\<close> is the one the retry loop
  tells apart; \<open>OtherException\<close> stands for every other fault a remote call may raise
  (timeouts, throttling, permission and connectivity errors). Each carries its message.
\<close>

datatype exn =
    InvalidDBClusterStateFault string
  | KeyError string
  | IndexError string
  | ValueError string
  | TypeError string
  | OtherException string

fun is_InvalidDBClusterStateFault :: "exn \<Rightarrow> bool" where
  "is_InvalidDBClusterStateFault (InvalidDBClusterStateFault m) = True"
| "is_InvalidDBClusterStateFault e = False"

text \<open>\<^verbatim>\<open>str(exc)\<close>: the message; for a \<^verbatim>\<open>KeyError\<close> Python prints the repr of the key.\<close>

fun str_exn :: "exn \<Rightarrow> string" where
  "str_exn (InvalidDBClusterStateFault m) = m"
| "str_exn (KeyError k) = [CHR 0x27] @ k @ [CHR 0x27]"
| "str_exn (IndexError m) = m"
| "str_exn (ValueError m) = m"
| "str_exn (TypeError m) = m"
| "str_exn (OtherException m) = m"

subsection \<open>Constants\<close>

definition ACTION_START :: string where "ACTION_START = ''start''"
definition ACTION_STOP :: string where "ACTION_STOP = ''stop''"

definition STATUS_AVAILABLE :: string where "STATUS_AVAILABLE = ''available''"
definition STATUS_STOPPED :: string where "STATUS_STOPPED = ''stopped''"
definition STATUS_STARTING :: string where "STATUS_STARTING = ''starting''"
definition STATUS_STOPPING :: string where "STATUS_STOPPING = ''stopping''"

definition UNSTOPPABLE_ENGINE_MODES :: "string set" where
  "UNSTOPPABLE_ENGINE_MODES = {''global'', ''parallelquery'', ''multimaster'', ''serverless''}"

definition MAX_RETRIES :: nat where "MAX_RETRIES = 3"
definition RETRY_DELAY_SECONDS :: nat where "RETRY_DELAY_SECONDS = 5"

subsection \<open>Strings and dictionaries\<close>

text \<open>
  \<^verbatim>\<open>str.lower()\<close>. A \<open>string\<close> is a list of 8-bit characters, so the letters
  \<^verbatim>\<open>A\<close> to \<^verbatim>\<open>Z\<close> are mapped to \<^verbatim>\<open>a\<close> to \<^verbatim>\<open>z\<close> and every other character is
  left as it is.
\<close>

definition lower_char :: "char \<Rightarrow> char" where
  "lower_char c =
     (case map_of (zip ''ABCDEFGHIJKLMNOPQRSTUVWXYZ'' ''abcdefghijklmnopqrstuvwxyz'') c of
        None \<Rightarrow> c
      | Some l \<Rightarrow> l)"

definition py_lower :: "string \<Rightarrow> string" where
  "py_lower s = map lower_char s"

text \<open>\<^verbatim>\<open>d.get(k, default)\<close>.\<close>

definition dict_get :: "pydict \<Rightarrow> string \<Rightarrow> string \<Rightarrow> string" where
  "dict_get d k dflt = (case d k of None \<Rightarrow> dflt | Some v \<Rightarrow> v)"

section \<open>Eligibility filter\<close>

text \<open>
  \<^verbatim>\<open>is_multi_az_db_cluster\<close>: the engine name starts with \<^verbatim>\<open>mysql\<close> or \<^verbatim>\<open>postgres\<close> and
  the descriptor has the key \<^verbatim>\<open>DBClusterInstanceClass\<close>.
\<close>

definition is_multi_az_db_cluster :: "pydict \<Rightarrow> bool" where
  "is_multi_az_db_cluster cluster =
     (let engine = dict_get cluster ''Engine'' '''';
          has_instance_class = (''DBClusterInstanceClass'' \<in> dom cluster)
      in (prefix ''mysql'' engine \<or> prefix ''postgres'' engine) \<and> has_instance_class)"

text \<open>
  \<^verbatim>\<open>is_stoppable_cluster\<close>. Its first statement is the subscript
  \<^verbatim>\<open>cluster["DBClusterIdentifier"]\<close>, which raises \<^verbatim>\<open>KeyError\<close> on a descriptor without
  an identifier; the calls of the logger have no effect on the result.
\<close>

definition is_stoppable_cluster :: "pydict \<Rightarrow> exn + bool" where
  "is_stoppable_cluster cluster =
     (case cluster ''DBClusterIdentifier'' of
        None \<Rightarrow> Inl (KeyError ''DBClusterIdentifier'')
      | Some cluster_id \<Rightarrow>
          (let engine_mode = py_lower (dict_get cluster ''EngineMode'' ''provisioned'')
           in if engine_mode \<in> UNSTOPPABLE_ENGINE_MODES then Inr False
              else if is_multi_az_db_cluster cluster then Inr False
              else Inr True))"

section \<open>The remote collaborators and the effects of a run\<close>

text \<open>
  The module reaches the outside through the client \<^verbatim>\<open>boto3.client("rds")\<close> and through
  \<^verbatim>\<open>time.sleep\<close>. The outside is a value of a type \<open>'w\<close> that every remote call may
  read and change; a call returns the exception it raises (\<open>Inl\<close>) or its response
  (\<open>Inr\<close>). Nothing is assumed about the collaborators: a client is any record of such
  functions. The paginator is one remote step that yields all the pages of
  \<^verbatim>\<open>describe_db_clusters\<close> or the fault that interrupts the iteration.
\<close>

record 'w rds_client =
  start_db_cluster :: "string \<Rightarrow> 'w \<Rightarrow> (exn + unit) \<times> 'w"
  stop_db_cluster :: "string \<Rightarrow> 'w \<Rightarrow> (exn + unit) \<times> 'w"
  describe_db_clusters :: "string \<Rightarrow> 'w \<Rightarrow> (exn + response) \<times> 'w"
  list_tags_for_resource :: "string \<Rightarrow> 'w \<Rightarrow> (exn + response) \<times> 'w"
  paginate :: "'w \<Rightarrow> (exn + response list) \<times> 'w"

text \<open>The module globals \<^verbatim>\<open>boto3\<close> and \<^verbatim>\<open>time\<close>.\<close>

record 'w env =
  boto3_client :: "string \<Rightarrow> 'w \<Rightarrow> (exn + 'w rds_client) \<times> 'w"
  time_sleep :: "nat \<Rightarrow> 'w \<Rightarrow> 'w"

text \<open>
  Every call site of a collaborator appends one event to a trace, so that the number and
  the order of the remote calls and of the delays of a run can be stated.
\<close>

datatype event =
    Call_boto3_client string
  | Call_paginate
  | Call_list_tags_for_resource string
  | Call_describe_db_clusters string
  | Call_start_db_cluster string
  | Call_stop_db_cluster string
  | Sleep nat

record 'w state =
  world :: 'w
  trace :: "event list"

definition remote :: "event \<Rightarrow> ('w \<Rightarrow> 'a \<times> 'w) \<Rightarrow> 'w state \<Rightarrow> 'a \<times> 'w state" where
  "remote ev f s =
     (case f (world s) of (r, w') \<Rightarrow> (r, \<lparr>world = w', trace = trace s @ [ev]\<rparr>))"

text \<open>\<^verbatim>\<open>time.sleep(n)\<close>.\<close>

definition sleep :: "'w env \<Rightarrow> nat \<Rightarrow> 'w state \<Rightarrow> 'w state" where
  "sleep env n s = \<lparr>world = time_sleep env n (world s), trace = trace s @ [Sleep n]\<rparr>"

section \<open>Tag gate\<close>

text \<open>
  The generator expression \<^verbatim>\<open>any(tag["Key"] == tag_key for tag in tags)\<close>: it stops at
  the first tag whose key matches, and the subscript raises \<^verbatim>\<open>KeyError\<close> on a tag
  without the key \<^verbatim>\<open>Key\<close> that is reached before a match.
\<close>

fun any_key :: "pydict list \<Rightarrow> string \<Rightarrow> exn + bool" where
  "any_key [] tag_key = Inr False"
| "any_key (tag # tags) tag_key =
     (case tag ''Key'' of
        None \<Rightarrow> Inl (KeyError ''Key'')
      | Some k \<Rightarrow> if k = tag_key then Inr True else any_key tags tag_key)"

text \<open>The body of the \<^verbatim>\<open>try\<close> statement of \<^verbatim>\<open>has_schedule_tag\<close>.\<close>

definition has_schedule_tag_try ::
  "'w rds_client \<Rightarrow> string \<Rightarrow> string \<Rightarrow> 'w state \<Rightarrow> (exn + bool) \<times> 'w state" where
  "has_schedule_tag_try rds_client cluster_arn tag_key s =
     (case remote (Call_list_tags_for_resource cluster_arn)
             (list_tags_for_resource rds_client cluster_arn) s of
        (Inl exc, s') \<Rightarrow> (Inl exc, s')
      | (Inr resp, s') \<Rightarrow>
          (case resp ''TagList'' of
             None \<Rightarrow> (Inl (KeyError ''TagList''), s')
           | Some tags \<Rightarrow> (any_key tags tag_key, s')))"

text \<open>\<^verbatim>\<open>has_schedule_tag\<close>: the handler \<^verbatim>\<open>except Exception\<close> logs a warning and returns False.\<close>

definition has_schedule_tag ::
  "'w rds_client \<Rightarrow> string \<Rightarrow> string \<Rightarrow> 'w state \<Rightarrow> bool \<times> 'w state" where
  "has_schedule_tag rds_client cluster_arn tag_key s =
     (case has_schedule_tag_try rds_client cluster_arn tag_key s of
        (Inr b, s') \<Rightarrow> (b, s')
      | (Inl exc, s') \<Rightarrow> (False, s'))"

section \<open>Retrying executor\<close>

text \<open>
  The two statements
  \<^verbatim>\<open>response = rds_client.describe_db_clusters(DBClusterIdentifier=cluster_id)\<close> and
  \<^verbatim>\<open>response["DBClusters"][0]["Status"]\<close>, which \<^verbatim>\<open>perform_action_with_retry\<close> and
  \<^verbatim>\<open>process_cluster\<close> both contain.
\<close>

definition fetch_status ::
  "'w rds_client \<Rightarrow> string \<Rightarrow> 'w state \<Rightarrow> (exn + string) \<times> 'w state" where
  "fetch_status rds_client cluster_id s =
     (case remote (Call_describe_db_clusters cluster_id)
             (describe_db_clusters rds_client cluster_id) s of
        (Inl exc, s') \<Rightarrow> (Inl exc, s')
      | (Inr resp, s') \<Rightarrow>
          (case resp ''DBClusters'' of
             None \<Rightarrow> (Inl (KeyError ''DBClusters''), s')
           | Some [] \<Rightarrow> (Inl (IndexError ''list index out of range''), s')
           | Some (c # cs) \<Rightarrow>
               (case c ''Status'' of
                  None \<Rightarrow> (Inl (KeyError ''Status''), s')
                | Some st \<Rightarrow> (Inr st, s'))))"

text \<open>
  \<^verbatim>\<open>api_call\<close>: the start operation when the action is \<^verbatim>\<open>"start"\<close>, the stop operation
  for every other action.
\<close>

definition api_call ::
  "'w rds_client \<Rightarrow> string \<Rightarrow> string \<Rightarrow> 'w state \<Rightarrow> (exn + unit) \<times> 'w state" where
  "api_call rds_client action cluster_id =
     (if action = ACTION_START
      then remote (Call_start_db_cluster cluster_id) (start_db_cluster rds_client cluster_id)
      else remote (Call_stop_db_cluster cluster_id) (stop_db_cluster rds_client cluster_id))"

text \<open>
  The body of the \<^verbatim>\<open>try\<close> statement inside the loop: the invocation, a pause of one
  second and the confirmatory read of the status.
\<close>

definition attempt_try ::
  "'w env \<Rightarrow> 'w rds_client \<Rightarrow> string \<Rightarrow> string \<Rightarrow> 'w state \<Rightarrow> (exn + string) \<times> 'w state" where
  "attempt_try env rds_client cluster_id action s =
     (case api_call rds_client action cluster_id s of
        (Inl exc, s1) \<Rightarrow> (Inl exc, s1)
      | (Inr u, s1) \<Rightarrow> fetch_status rds_client cluster_id (sleep env 1 s1))"

text \<open>
  The loop \<^verbatim>\<open>for attempt in range(1, MAX_RETRIES + 1)\<close> over the attempts that remain,
  with the variable \<^verbatim>\<open>last_exception\<close>. The statement after the loop,
  \<^verbatim>\<open>raise last_exception\<close>, raises \<^verbatim>\<open>TypeError\<close> when the variable is still None.
\<close>

fun retry_loop ::
  "'w env \<Rightarrow> 'w rds_client \<Rightarrow> string \<Rightarrow> string \<Rightarrow> nat list \<Rightarrow> exn option \<Rightarrow> 'w state
     \<Rightarrow> (exn + string) \<times> 'w state" where
  "retry_loop env rds_client cluster_id action [] last_exception s =
     (case last_exception of
        None \<Rightarrow> (Inl (TypeError ''exceptions must derive from BaseException''), s)
      | Some exc \<Rightarrow> (Inl exc, s))"
| "retry_loop env rds_client cluster_id action (attempt # attempts) last_exception s =
     (case attempt_try env rds_client cluster_id action s of
        (Inr new_status, s1) \<Rightarrow> (Inr new_status, s1)
      | (Inl exc, s1) \<Rightarrow>
          if is_InvalidDBClusterStateFault exc then (Inl exc, s1)
          else retry_loop env rds_client cluster_id action attempts (Some exc)
                 (if attempt < MAX_RETRIES then sleep env RETRY_DELAY_SECONDS s1 else s1))"

definition perform_action_with_retry ::
  "'w env \<Rightarrow> 'w rds_client \<Rightarrow> string \<Rightarrow> string \<Rightarrow> 'w state \<Rightarrow> (exn + string) \<times> 'w state" where
  "perform_action_with_retry env rds_client cluster_id action s =
     retry_loop env rds_client cluster_id action [1 ..< MAX_RETRIES + 1] None s"

section \<open>Transition guard and the processing of one cluster\<close>

record result =
  cluster_id :: string
  outcome :: string
  message :: string
  status :: string

text \<open>The character U+2014 of the two \<^verbatim>\<open>Already ...\<close> messages, in UTF-8.\<close>

definition em_dash :: string where
  "em_dash = [CHR 0xE2, CHR 0x80, CHR 0x94]"

definition quoted :: "string \<Rightarrow> string" where
  "quoted x = [CHR 0x27] @ x @ [CHR 0x27]"

text \<open>
  The statement \<^verbatim>\<open>if action == ACTION_START: ... elif action == ACTION_STOP: ...\<close> of
  \<^verbatim>\<open>process_cluster\<close>, applied to the result dict in which the status has been stored:
  \<open>Some r\<close> when one of its four \<^verbatim>\<open>return result\<close> statements is reached, with the result
  \<open>r\<close> returned there, and \<open>None\<close> when control falls through to
  \<^verbatim>\<open>perform_action_with_retry\<close>.
\<close>

definition transition_guard :: "string \<Rightarrow> string \<Rightarrow> result \<Rightarrow> result option" where
  "transition_guard action current_status res =
     (if action = ACTION_START then
        (if current_status \<in> {STATUS_AVAILABLE, STATUS_STARTING} then
           Some (res\<lparr>outcome := ''skipped'',
                     message := ''Already '' @ quoted current_status @ '' '' @ em_dash
                                @ '' no action needed.''\<rparr>)
         else if current_status \<noteq> STATUS_STOPPED then
           Some (res\<lparr>outcome := ''skipped'',
                     message := ''Cannot start from '' @ quoted current_status @ '' state.''\<rparr>)
         else None)
      else if action = ACTION_STOP then
        (if current_status \<in> {STATUS_STOPPED, STATUS_STOPPING} then
           Some (res\<lparr>outcome := ''skipped'',
                     message := ''Already '' @ quoted current_status @ '' '' @ em_dash
                                @ '' no action needed.''\<rparr>)
         else if current_status \<noteq> STATUS_AVAILABLE then
           Some (res\<lparr>outcome := ''skipped'',
                     message := ''Cannot stop from '' @ quoted current_status @ '' state.''\<rparr>)
         else None)
      else None)"

text \<open>The handler \<^verbatim>\<open>except Exception as exc\<close> of \<^verbatim>\<open>process_cluster\<close>.\<close>

definition on_exception :: "result \<Rightarrow> exn \<Rightarrow> result" where
  "on_exception res exc = res\<lparr>outcome := ''failed'', message := str_exn exc\<rparr>"

text \<open>
  \<^verbatim>\<open>process_cluster\<close>. The result dict is changed in place, so an exception raised after
  the first read leaves the status read there in the result.
\<close>

definition process_cluster ::
  "'w env \<Rightarrow> 'w rds_client \<Rightarrow> string \<Rightarrow> string \<Rightarrow> 'w state \<Rightarrow> result \<times> 'w state" where
  "process_cluster env rds_client cid action s =
     (let res = \<lparr>cluster_id = cid, outcome = ''failed'', message = '''', status = ''''\<rparr>
      in case fetch_status rds_client cid s of
           (Inl exc, s1) \<Rightarrow> (on_exception res exc, s1)
         | (Inr current_status, s1) \<Rightarrow>
             (let res = res\<lparr>status := current_status\<rparr>
              in case transition_guard action current_status res of
                   Some r \<Rightarrow> (r, s1)
                 | None \<Rightarrow>
                     (case perform_action_with_retry env rds_client cid action s1 of
                        (Inl exc, s2) \<Rightarrow> (on_exception res exc, s2)
                      | (Inr new_status, s2) \<Rightarrow>
                          (res\<lparr>outcome := ''processed'', status := new_status,
                               message := ''Action '' @ quoted action
                                          @ '' initiated successfully.''\<rparr>, s2))))"

section \<open>Orchestrator\<close>

record report =
  ProcessedClusters :: "string list"
  SkippedClusters :: "string list"
  FailedClusters :: "string list"

text \<open>\<^verbatim>\<open>for page in paginator.paginate(): all_clusters.extend(page["DBClusters"])\<close>.\<close>

fun extend_pages :: "response list \<Rightarrow> pydict list \<Rightarrow> exn + pydict list" where
  "extend_pages [] all_clusters = Inr all_clusters"
| "extend_pages (page # pages) all_clusters =
     (case page ''DBClusters'' of
        None \<Rightarrow> Inl (KeyError ''DBClusters'')
      | Some cs \<Rightarrow> extend_pages pages (all_clusters @ cs))"

text \<open>Step 2 of the handler: the loop that fills the list \<^verbatim>\<open>eligible\<close>.\<close>

fun select_eligible ::
  "'w rds_client \<Rightarrow> string \<Rightarrow> pydict list \<Rightarrow> string list \<Rightarrow> 'w state
     \<Rightarrow> (exn + string list) \<times> 'w state" where
  "select_eligible rds_client tag_key [] eligible s = (Inr eligible, s)"
| "select_eligible rds_client tag_key (cluster # clusters) eligible s =
     (case is_stoppable_cluster cluster of
        Inl exc \<Rightarrow> (Inl exc, s)
      | Inr stoppable \<Rightarrow>
          if \<not> stoppable then select_eligible rds_client tag_key clusters eligible s
          else
            (case cluster ''DBClusterArn'' of
               None \<Rightarrow> (Inl (KeyError ''DBClusterArn''), s)
             | Some arn \<Rightarrow>
                 (case has_schedule_tag rds_client arn tag_key s of
                    (tagged, s1) \<Rightarrow>
                      if \<not> tagged then select_eligible rds_client tag_key clusters eligible s1
                      else
                        (case cluster ''DBClusterIdentifier'' of
                           None \<Rightarrow> (Inl (KeyError ''DBClusterIdentifier''), s1)
                         | Some cid \<Rightarrow>
                             select_eligible rds_client tag_key clusters
                               (eligible @ [cid]) s1))))"

text \<open>Step 3 of the handler: the loop over \<^verbatim>\<open>eligible\<close> with its three lists.\<close>

fun process_all ::
  "'w env \<Rightarrow> 'w rds_client \<Rightarrow> string \<Rightarrow> string list
     \<Rightarrow> string list \<times> string list \<times> string list \<Rightarrow> 'w state
     \<Rightarrow> (string list \<times> string list \<times> string list) \<times> 'w state" where
  "process_all env rds_client action [] acc s = (acc, s)"
| "process_all env rds_client action (cid # eligible) (processed, skipped, failed) s =
     (case process_cluster env rds_client cid action s of
        (res, s1) \<Rightarrow>
          if outcome res = ''processed'' then
            process_all env rds_client action eligible (processed @ [cid], skipped, failed) s1
          else if outcome res = ''skipped'' then
            process_all env rds_client action eligible (processed, skipped @ [cid], failed) s1
          else
            process_all env rds_client action eligible (processed, skipped, failed @ [cid]) s1)"

text \<open>
  \<^verbatim>\<open>handler(event, context)\<close>. \<^verbatim>\<open>event.get('Action')\<close> in the message of the
  \<^verbatim>\<open>ValueError\<close> prints \<^verbatim>\<open>None\<close> for an event without the key.
\<close>

definition invalid_action_message :: "pydict \<Rightarrow> string" where
  "invalid_action_message event =
     ''Invalid Action '' @ quoted (dict_get event ''Action'' ''None'')
     @ ''. Must be '' @ quoted ''Start'' @ '' or '' @ quoted ''Stop'' @ ''.''"

definition handler ::
  "'w env \<Rightarrow> pydict \<Rightarrow> 'c \<Rightarrow> 'w state \<Rightarrow> (exn + report) \<times> 'w state" where
  "handler env event context s =
     (let action = py_lower (dict_get event ''Action'' '''');
          tag_key = dict_get event ''ScheduleTagKey'' ''Schedule''
      in if action \<notin> {ACTION_START, ACTION_STOP} then
           (Inl (ValueError (invalid_action_message event)), s)
         else
           (case remote (Call_boto3_client ''rds'') (boto3_client env ''rds'') s of
              (Inl exc, s1) \<Rightarrow> (Inl exc, s1)
            | (Inr rds_client, s1) \<Rightarrow>
                (case remote Call_paginate (paginate rds_client) s1 of
                   (Inl exc, s2) \<Rightarrow> (Inl exc, s2)
                 | (Inr pages, s2) \<Rightarrow>
                     (case extend_pages pages [] of
                        Inl exc \<Rightarrow> (Inl exc, s2)
                      | Inr all_clusters \<Rightarrow>
                          (case select_eligible rds_client tag_key all_clusters [] s2 of
                             (Inl exc, s3) \<Rightarrow> (Inl exc, s3)
                           | (Inr eligible, s3) \<Rightarrow>
                               (case process_all env rds_client action eligible ([], [], []) s3 of
                                  ((processed, skipped, failed), s4) \<Rightarrow>
                                    (Inr \<lparr>ProcessedClusters = processed,
                                          SkippedClusters = skipped,
                                          FailedClusters = failed\<rparr>, s4)))))))"

section \<open>Test doubles\<close>

text \<open>
  A client whose answers depend on the identifier or resource name it is asked about and
  not on the outside, an environment that hands this client out and whose
  \<^verbatim>\<open>time.sleep\<close> leaves the outside as it is, and the initial state of a run.
\<close>

definition fake_client ::
  "(string \<Rightarrow> exn + unit) \<Rightarrow> (string \<Rightarrow> exn + unit) \<Rightarrow> (string \<Rightarrow> exn + response)
     \<Rightarrow> (string \<Rightarrow> exn + response) \<Rightarrow> (exn + response list) \<Rightarrow> unit rds_client" where
  "fake_client start stop describe tags pages =
     \<lparr>start_db_cluster = (\<lambda>cid w. (start cid, w)),
      stop_db_cluster = (\<lambda>cid w. (stop cid, w)),
      describe_db_clusters = (\<lambda>cid w. (describe cid, w)),
      list_tags_for_resource = (\<lambda>arn w. (tags arn, w)),
      paginate = (\<lambda>w. (pages, w))\<rparr>"

definition fake_env :: "unit rds_client \<Rightarrow> unit env" where
  "fake_env rds_client =
     \<lparr>boto3_client = (\<lambda>name w. (Inr rds_client, w)), time_sleep = (\<lambda>n w. w)\<rparr>"

definition s0 :: "unit state" where
  "s0 = \<lparr>world = (), trace = []\<rparr>"

text \<open>Descriptors: a Serverless v1 cluster, an Aurora cluster and a Multi-AZ DB cluster.\<close>

definition serverless_cluster :: pydict where
  "serverless_cluster =
     [''DBClusterIdentifier'' \<mapsto> ''c1'', ''Engine'' \<mapsto> ''aurora-mysql'',
      ''EngineMode'' \<mapsto> ''Serverless'', ''DBClusterArn'' \<mapsto> ''arn:c1'']"

definition provisioned_cluster :: pydict where
  "provisioned_cluster =
     [''DBClusterIdentifier'' \<mapsto> ''c2'', ''Engine'' \<mapsto> ''aurora-postgresql'',
      ''DBClusterArn'' \<mapsto> ''arn:c2'']"

definition multi_az_cluster :: pydict where
  "multi_az_cluster =
     [''DBClusterIdentifier'' \<mapsto> ''c3'', ''Engine'' \<mapsto> ''postgres'',
      ''DBClusterInstanceClass'' \<mapsto> ''db.m5d.large'', ''DBClusterArn'' \<mapsto> ''arn:c3'']"

text \<open>Responses of \<^verbatim>\<open>describe_db_clusters\<close> and \<^verbatim>\<open>list_tags_for_resource\<close>.\<close>

definition status_response :: "string \<Rightarrow> response" where
  "status_response st = [''DBClusters'' \<mapsto> [[''Status'' \<mapsto> st]]]"

definition tag_response :: "string list \<Rightarrow> response" where
  "tag_response ks = [''TagList'' \<mapsto> map (\<lambda>k. [''Key'' \<mapsto> k, ''Value'' \<mapsto> ''true'']) ks]"

text \<open>
  A client whose start and stop operations are rejected with the invalid-state fault, one
  whose start and stop operations are throttled, and one whose start and stop operations
  succeed while every read of the status times out.
\<close>

definition invalid_state_client :: "unit rds_client" where
  "invalid_state_client =
     fake_client (\<lambda>cid. Inl (InvalidDBClusterStateFault ''not in stopped state''))
       (\<lambda>cid. Inl (InvalidDBClusterStateFault ''not in available state''))
       (\<lambda>cid. Inr (status_response ''stopped''))
       (\<lambda>arn. Inr (tag_response [''Schedule'']))
       (Inr [])"

definition throttled_client :: "unit rds_client" where
  "throttled_client =
     fake_client (\<lambda>cid. Inl (OtherException ''Throttling''))
       (\<lambda>cid. Inl (OtherException ''Throttling''))
       (\<lambda>cid. Inr (status_response ''available''))
       (\<lambda>arn. Inr (tag_response [''Schedule'']))
       (Inr [])"

definition unreadable_client :: "unit rds_client" where
  "unreadable_client =
     fake_client (\<lambda>cid. Inr ()) (\<lambda>cid. Inr ())
       (\<lambda>cid. Inl (OtherException ''timeout''))
       (\<lambda>arn. Inr (tag_response [''Schedule'']))
       (Inr [])"

text \<open>A client whose start and stop operations succeed and that reports one fixed status.\<close>

definition steady_client :: "string \<Rightarrow> unit rds_client" where
  "steady_client st =
     fake_client (\<lambda>cid. Inr ()) (\<lambda>cid. Inr ())
       (\<lambda>cid. Inr (status_response st))
       (\<lambda>arn. Inr (tag_response [''Schedule'']))
       (Inr [])"

text \<open>
  A fleet of seven clusters on two pages. \<^verbatim>\<open>c1\<close> is Serverless and \<^verbatim>\<open>c3\<close> a Multi-AZ DB
  cluster; \<^verbatim>\<open>c4\<close> does not carry the tag \<^verbatim>\<open>Schedule\<close> and the tags of \<^verbatim>\<open>c7\<close> cannot be
  read; \<^verbatim>\<open>c2\<close> is available, \<^verbatim>\<open>c5\<close> is stopping and the status of \<^verbatim>\<open>c6\<close> cannot be
  read.
\<close>

definition aurora_cluster :: "string \<Rightarrow> pydict" where
  "aurora_cluster cid =
     [''DBClusterIdentifier'' \<mapsto> cid, ''Engine'' \<mapsto> ''aurora-mysql'',
      ''EngineMode'' \<mapsto> ''provisioned'', ''DBClusterArn'' \<mapsto> ''arn:'' @ cid]"

definition fleet_pages :: "response list" where
  "fleet_pages =
     [[''DBClusters'' \<mapsto> [serverless_cluster, provisioned_cluster]],
      [''DBClusters'' \<mapsto> [multi_az_cluster, aurora_cluster ''c4'', aurora_cluster ''c5'',
                           aurora_cluster ''c6'', aurora_cluster ''c7'']]]"

definition fleet_client :: "unit rds_client" where
  "fleet_client =
     fake_client (\<lambda>cid. Inr ()) (\<lambda>cid. Inr ())
       (\<lambda>cid. if cid = ''c6'' then Inl (OtherException ''timeout'')
              else if cid = ''c5'' then Inr (status_response ''stopping'')
              else Inr (status_response ''available''))
       (\<lambda>arn. if arn = ''arn:c7'' then Inl (OtherException ''AccessDenied'')
              else if arn = ''arn:c4'' then Inr (tag_response [''Owner''])
              else Inr (tag_response [''Owner'', ''Schedule'']))
       (Inr fleet_pages)"

section \<open>Properties of the eligibility filter\<close>

lemma is_multi_az_upd_mode:
  "is_multi_az_db_cluster (cluster(''EngineMode'' \<mapsto> m)) = is_multi_az_db_cluster cluster"
  by (simp add: is_multi_az_db_cluster_def dict_get_def dom_def)

text \<open>
  Claim C2. For every cluster descriptor (a dict that has its identifier),
  \<open>is_stoppable_cluster\<close> lowercases the engine mode, taken as \<^verbatim>\<open>provisioned\<close> when
  the field is absent, and returns False whenever the lowercased mode is one of
  \<^verbatim>\<open>global\<close>, \<^verbatim>\<open>parallelquery\<close>, \<^verbatim>\<open>multimaster\<close>, \<^verbatim>\<open>serverless\<close>. With the field absent
  the result is that of the descriptor with the mode \<^verbatim>\<open>provisioned\<close> and is decided by
  the Multi-AZ test alone, and two modes that differ in letter case only give the same
  result.
\<close>

theorem is_stoppable_cluster_engine_mode:
  assumes "cluster ''DBClusterIdentifier'' = Some cid"
  shows "(py_lower (dict_get cluster ''EngineMode'' ''provisioned'') \<in> UNSTOPPABLE_ENGINE_MODES
            \<longrightarrow> is_stoppable_cluster cluster = Inr False)
       \<and> (cluster ''EngineMode'' = None
            \<longrightarrow> is_stoppable_cluster cluster = Inr (\<not> is_multi_az_db_cluster cluster)
              \<and> is_stoppable_cluster cluster
                  = is_stoppable_cluster (cluster(''EngineMode'' \<mapsto> ''provisioned'')))
       \<and> (py_lower m = py_lower m'
            \<longrightarrow> is_stoppable_cluster (cluster(''EngineMode'' \<mapsto> m))
                = is_stoppable_cluster (cluster(''EngineMode'' \<mapsto> m')))"
proof -
  have low: "py_lower ''provisioned'' = ''provisioned''"
    by (simp add: py_lower_def lower_char_def)
  have notin: "''provisioned'' \<notin> UNSTOPPABLE_ENGINE_MODES"
    by (simp add: UNSTOPPABLE_ENGINE_MODES_def)
  have a: "py_lower (dict_get cluster ''EngineMode'' ''provisioned'') \<in> UNSTOPPABLE_ENGINE_MODES
            \<longrightarrow> is_stoppable_cluster cluster = Inr False"
    using assms by (simp add: is_stoppable_cluster_def)
  have b: "cluster ''EngineMode'' = None
            \<longrightarrow> is_stoppable_cluster cluster = Inr (\<not> is_multi_az_db_cluster cluster)
              \<and> is_stoppable_cluster cluster
                  = is_stoppable_cluster (cluster(''EngineMode'' \<mapsto> ''provisioned''))"
    using assms low notin
    by (simp add: is_stoppable_cluster_def dict_get_def is_multi_az_upd_mode)
  have c: "py_lower m = py_lower m'
            \<longrightarrow> is_stoppable_cluster (cluster(''EngineMode'' \<mapsto> m))
                = is_stoppable_cluster (cluster(''EngineMode'' \<mapsto> m'))"
    using assms by (simp add: is_stoppable_cluster_def dict_get_def is_multi_az_upd_mode)
  from a b c show ?thesis by blast
qed

theorem is_stoppable_cluster_engine_mode_witness:
  "serverless_cluster ''DBClusterIdentifier'' = Some ''c1''
   \<and> py_lower (dict_get serverless_cluster ''EngineMode'' ''provisioned'')
       \<in> UNSTOPPABLE_ENGINE_MODES
   \<and> is_stoppable_cluster serverless_cluster = Inr False
   \<and> provisioned_cluster ''DBClusterIdentifier'' = Some ''c2''
   \<and> provisioned_cluster ''EngineMode'' = None
   \<and> is_stoppable_cluster provisioned_cluster = Inr True
   \<and> py_lower ''GLOBAL'' = py_lower ''Global''
   \<and> is_stoppable_cluster (provisioned_cluster(''EngineMode'' \<mapsto> ''GLOBAL''))
       = is_stoppable_cluster (provisioned_cluster(''EngineMode'' \<mapsto> ''Global''))"
proof -
  have h1: "serverless_cluster ''DBClusterIdentifier'' = Some ''c1''"
    by (simp add: serverless_cluster_def)
  have h2: "provisioned_cluster ''DBClusterIdentifier'' = Some ''c2''"
    by (simp add: provisioned_cluster_def)
  have m1: "py_lower (dict_get serverless_cluster ''EngineMode'' ''provisioned'')
              \<in> UNSTOPPABLE_ENGINE_MODES"
    by (simp add: serverless_cluster_def dict_get_def py_lower_def lower_char_def
          UNSTOPPABLE_ENGINE_MODES_def)
  have m2: "provisioned_cluster ''EngineMode'' = None"
    by (simp add: provisioned_cluster_def)
  have m3: "py_lower ''GLOBAL'' = py_lower ''Global''"
    by (simp add: py_lower_def lower_char_def)
  have az: "\<not> is_multi_az_db_cluster provisioned_cluster"
    by (simp add: provisioned_cluster_def is_multi_az_db_cluster_def dict_get_def)
  show ?thesis
    using is_stoppable_cluster_engine_mode
            [of serverless_cluster "''c1''" "''GLOBAL''" "''Global''"]
          is_stoppable_cluster_engine_mode
            [of provisioned_cluster "''c2''" "''GLOBAL''" "''Global''"]
          h1 h2 m1 m2 m3 az
    by simp
qed

text \<open>
  Claim C3. For every cluster descriptor whose engine name begins with \<^verbatim>\<open>mysql\<close> or
  \<^verbatim>\<open>postgres\<close> and which has the field \<^verbatim>\<open>DBClusterInstanceClass\<close>,
  \<open>is_stoppable_cluster\<close> returns False, whatever the engine mode is (the one the
  descriptor has, or any other one put in its place).
\<close>

theorem is_stoppable_cluster_multi_az:
  assumes "cluster ''DBClusterIdentifier'' = Some cid"
      and "prefix ''mysql'' (dict_get cluster ''Engine'' '''')
           \<or> prefix ''postgres'' (dict_get cluster ''Engine'' '''')"
      and "''DBClusterInstanceClass'' \<in> dom cluster"
  shows "is_multi_az_db_cluster cluster \<and> is_stoppable_cluster cluster = Inr False
         \<and> is_stoppable_cluster (cluster(''EngineMode'' \<mapsto> m)) = Inr False"
  using assms
  by (auto simp add: is_stoppable_cluster_def is_multi_az_db_cluster_def dict_get_def Let_def)

theorem is_stoppable_cluster_multi_az_witness:
  "multi_az_cluster ''DBClusterIdentifier'' = Some ''c3''
   \<and> prefix ''postgres'' (dict_get multi_az_cluster ''Engine'' '''')
   \<and> ''DBClusterInstanceClass'' \<in> dom multi_az_cluster
   \<and> is_stoppable_cluster multi_az_cluster = Inr False
   \<and> is_stoppable_cluster (multi_az_cluster(''EngineMode'' \<mapsto> ''provisioned'')) = Inr False"
proof -
  have h1: "multi_az_cluster ''DBClusterIdentifier'' = Some ''c3''"
    by (simp add: multi_az_cluster_def)
  have h2: "prefix ''postgres'' (dict_get multi_az_cluster ''Engine'' '''')"
    by (simp add: multi_az_cluster_def dict_get_def)
  have h3: "''DBClusterInstanceClass'' \<in> dom multi_az_cluster"
    by (simp add: multi_az_cluster_def)
  show ?thesis
    using is_stoppable_cluster_multi_az [of multi_az_cluster "''c3''" "''provisioned''"]
          h1 h2 h3
    by simp
qed

section \<open>Properties of the retrying executor\<close>

lemma attempts_range: "[1 ..< MAX_RETRIES + 1] = [1, 2, 3]"
  by (simp add: MAX_RETRIES_def upt_rec)

lemma api_call_trace:
  assumes "api_call rds_client action cid s = (r, s1)"
  shows "trace s1 = trace s
           @ [if action = ACTION_START then Call_start_db_cluster cid
              else Call_stop_db_cluster cid]"
  using assms by (auto simp add: api_call_def remote_def split: if_splits prod.splits)

lemma attempt_try_invocation_fails:
  assumes "api_call rds_client action cid s = (Inl exc, s1)"
  shows "attempt_try env rds_client cid action s = (Inl exc, s1)"
  using assms by (simp add: attempt_try_def)

lemma retry_loop_invalid:
  assumes "attempt_try env rds_client cid action s = (Inl exc, s1)"
      and "is_InvalidDBClusterStateFault exc"
  shows "retry_loop env rds_client cid action (attempt # attempts) last_exception s
           = (Inl exc, s1)"
  using assms by simp

lemma retry_loop_transient:
  assumes "attempt_try env rds_client cid action s = (Inl exc, s1)"
      and "\<not> is_InvalidDBClusterStateFault exc"
  shows "retry_loop env rds_client cid action (attempt # attempts) last_exception s
           = retry_loop env rds_client cid action attempts (Some exc)
               (if attempt < MAX_RETRIES then sleep env RETRY_DELAY_SECONDS s1 else s1)"
  using assms by simp

text \<open>
  Claim C5. If the start or stop invocation raises \<^verbatim>\<open>InvalidDBClusterStateFault\<close>,
  \<open>perform_action_with_retry\<close> raises that fault after this one invocation: the run has
  made exactly one remote call, the invocation, and no delay. The same holds at whatever
  attempt of the loop the fault is raised.
\<close>

theorem invalid_state_fault_not_retried:
  assumes "api_call rds_client action cid s = (Inl exc, s1)"
      and "is_InvalidDBClusterStateFault exc"
  shows "perform_action_with_retry env rds_client cid action s = (Inl exc, s1)
       \<and> trace s1 = trace s
           @ [if action = ACTION_START then Call_start_db_cluster cid
              else Call_stop_db_cluster cid]
       \<and> retry_loop env rds_client cid action (attempt # attempts) last_exception s
           = (Inl exc, s1)"
proof -
  have t: "attempt_try env rds_client cid action s = (Inl exc, s1)"
    using assms(1) by (rule attempt_try_invocation_fails)
  have "perform_action_with_retry env rds_client cid action s = (Inl exc, s1)"
    unfolding perform_action_with_retry_def attempts_range
    using t assms(2) by (rule retry_loop_invalid)
  moreover have "retry_loop env rds_client cid action (attempt # attempts) last_exception s
           = (Inl exc, s1)"
    using t assms(2) by (rule retry_loop_invalid)
  ultimately show ?thesis
    using api_call_trace [OF assms(1)] by simp
qed

theorem invalid_state_fault_not_retried_witness:
  "api_call invalid_state_client ''start'' ''c1'' s0
     = (Inl (InvalidDBClusterStateFault ''not in stopped state''),
        \<lparr>world = (), trace = [Call_start_db_cluster ''c1'']\<rparr>)
   \<and> is_InvalidDBClusterStateFault (InvalidDBClusterStateFault ''not in stopped state'')
   \<and> perform_action_with_retry (fake_env invalid_state_client) invalid_state_client
         ''c1'' ''start'' s0
       = (Inl (InvalidDBClusterStateFault ''not in stopped state''),
          \<lparr>world = (), trace = [Call_start_db_cluster ''c1'']\<rparr>)"
proof -
  have h: "api_call invalid_state_client ''start'' ''c1'' s0
     = (Inl (InvalidDBClusterStateFault ''not in stopped state''),
        \<lparr>world = (), trace = [Call_start_db_cluster ''c1'']\<rparr>)"
    by (simp add: api_call_def remote_def invalid_state_client_def fake_client_def s0_def
          ACTION_START_def)
  show ?thesis
    using invalid_state_fault_not_retried
            [OF h, where env = "fake_env invalid_state_client" and attempt = 1
               and attempts = "[]" and last_exception = None] h
    by simp
qed

text \<open>
  Claim C6. If the start or stop invocation raises a fault other than
  \<^verbatim>\<open>InvalidDBClusterStateFault\<close> at each of the three attempts,
  \<open>perform_action_with_retry\<close> makes exactly three invocations, sleeps 5 seconds after
  the first and after the second and not after the third, and raises the fault of the
  third invocation.
\<close>

theorem transient_faults_three_attempts:
  assumes "api_call rds_client action cid s = (Inl e1, s1)"
      and "\<not> is_InvalidDBClusterStateFault e1"
      and "api_call rds_client action cid (sleep env RETRY_DELAY_SECONDS s1) = (Inl e2, s2)"
      and "\<not> is_InvalidDBClusterStateFault e2"
      and "api_call rds_client action cid (sleep env RETRY_DELAY_SECONDS s2) = (Inl e3, s3)"
      and "\<not> is_InvalidDBClusterStateFault e3"
  shows "perform_action_with_retry env rds_client cid action s = (Inl e3, s3)
       \<and> trace s3 = trace s
           @ (let invocation = (if action = ACTION_START then Call_start_db_cluster cid
                                else Call_stop_db_cluster cid)
              in [invocation, Sleep 5, invocation, Sleep 5, invocation])"
proof -
  have t1: "attempt_try env rds_client cid action s = (Inl e1, s1)"
    using assms(1) by (rule attempt_try_invocation_fails)
  have t2: "attempt_try env rds_client cid action (sleep env RETRY_DELAY_SECONDS s1)
              = (Inl e2, s2)"
    using assms(3) by (rule attempt_try_invocation_fails)
  have t3: "attempt_try env rds_client cid action (sleep env RETRY_DELAY_SECONDS s2)
              = (Inl e3, s3)"
    using assms(5) by (rule attempt_try_invocation_fails)
  have "retry_loop env rds_client cid action [1, 2, 3] None s
          = retry_loop env rds_client cid action [2, 3] (Some e1)
              (sleep env RETRY_DELAY_SECONDS s1)"
    using retry_loop_transient [OF t1 assms(2), where attempt = 1 and attempts = "[2, 3]" and last_exception = None]
    by (simp add: MAX_RETRIES_def)
  also have "\<dots> = retry_loop env rds_client cid action [3] (Some e2)
              (sleep env RETRY_DELAY_SECONDS s2)"
    using retry_loop_transient [OF t2 assms(4), where attempt = 2 and attempts = "[3]" and last_exception = "Some e1"]
    by (simp add: MAX_RETRIES_def)
  also have "\<dots> = retry_loop env rds_client cid action [] (Some e3) s3"
    using retry_loop_transient [OF t3 assms(6), where attempt = 3 and attempts = "[]" and last_exception = "Some e2"]
    by (simp add: MAX_RETRIES_def)
  also have "\<dots> = (Inl e3, s3)"
    by simp
  finally have "retry_loop env rds_client cid action [1, 2, 3] None s = (Inl e3, s3)" .
  then have res: "perform_action_with_retry env rds_client cid action s = (Inl e3, s3)"
    unfolding perform_action_with_retry_def attempts_range .
  have "trace s3 = trace s
           @ (let invocation = (if action = ACTION_START then Call_start_db_cluster cid
                                else Call_stop_db_cluster cid)
              in [invocation, Sleep 5, invocation, Sleep 5, invocation])"
    using api_call_trace [OF assms(1)] api_call_trace [OF assms(3)]
          api_call_trace [OF assms(5)]
    by (simp add: sleep_def RETRY_DELAY_SECONDS_def Let_def)
  with res show ?thesis by simp
qed

theorem transient_faults_three_attempts_witness:
  "api_call throttled_client ''stop'' ''c1'' s0
     = (Inl (OtherException ''Throttling''), \<lparr>world = (), trace = [Call_stop_db_cluster ''c1'']\<rparr>)
   \<and> \<not> is_InvalidDBClusterStateFault (OtherException ''Throttling'')
   \<and> perform_action_with_retry (fake_env throttled_client) throttled_client ''c1'' ''stop'' s0
       = (Inl (OtherException ''Throttling''),
          \<lparr>world = (),
           trace = [Call_stop_db_cluster ''c1'', Sleep 5, Call_stop_db_cluster ''c1'', Sleep 5,
                    Call_stop_db_cluster ''c1'']\<rparr>)"
proof -
  let ?env = "fake_env throttled_client"
  let ?s1 = "\<lparr>world = (), trace = [Call_stop_db_cluster ''c1'']\<rparr>"
  let ?s2 = "\<lparr>world = (), trace = [Call_stop_db_cluster ''c1'', Sleep 5,
                Call_stop_db_cluster ''c1'']\<rparr>"
  let ?s3 = "\<lparr>world = (), trace = [Call_stop_db_cluster ''c1'', Sleep 5,
                Call_stop_db_cluster ''c1'', Sleep 5, Call_stop_db_cluster ''c1'']\<rparr>"
  have n: "\<not> is_InvalidDBClusterStateFault (OtherException ''Throttling'')"
    by simp
  have h1: "api_call throttled_client ''stop'' ''c1'' s0
              = (Inl (OtherException ''Throttling''), ?s1)"
    by (simp add: api_call_def remote_def throttled_client_def fake_client_def s0_def
          ACTION_START_def)
  have h2: "api_call throttled_client ''stop'' ''c1'' (sleep ?env RETRY_DELAY_SECONDS ?s1)
              = (Inl (OtherException ''Throttling''), ?s2)"
    by (simp add: api_call_def remote_def throttled_client_def fake_client_def sleep_def
          fake_env_def RETRY_DELAY_SECONDS_def ACTION_START_def)
  have h3: "api_call throttled_client ''stop'' ''c1'' (sleep ?env RETRY_DELAY_SECONDS ?s2)
              = (Inl (OtherException ''Throttling''), ?s3)"
    by (simp add: api_call_def remote_def throttled_client_def fake_client_def sleep_def
          fake_env_def RETRY_DELAY_SECONDS_def ACTION_START_def)
  show ?thesis
    using transient_faults_three_attempts [OF h1 n h2 n h3 n] h1 n
    by simp
qed
lemma fetch_status_trace:
  assumes "fetch_status rds_client cid s = (r, s1)"
  shows "trace s1 = trace s @ [Call_describe_db_clusters cid]"
  using assms
  by (auto simp add: fetch_status_def remote_def
        split: prod.splits sum.splits option.splits list.splits)

lemma attempt_try_trace:
  assumes "attempt_try env rds_client cid action s = (r, s1)"
  shows "prefix (trace s @ [if action = ACTION_START then Call_start_db_cluster cid
                            else Call_stop_db_cluster cid]) (trace s1)"
proof (cases "api_call rds_client action cid s")
  case (Pair r0 t)
  note inv = api_call_trace [OF Pair]
  show ?thesis
  proof (cases r0)
    case (Inl exc)
    with Pair assms have "s1 = t" by (simp add: attempt_try_def)
    with inv show ?thesis by simp
  next
    case (Inr u)
    with Pair assms have "fetch_status rds_client cid (sleep env 1 t) = (r, s1)"
      by (simp add: attempt_try_def)
    from fetch_status_trace [OF this] inv show ?thesis
      by (simp add: sleep_def)
  qed
qed

lemma retry_loop_trace_mono:
  "prefix (trace s)
     (trace (snd (retry_loop env rds_client cid action attempts last_exception s)))"
proof (induction attempts arbitrary: last_exception s)
  case Nil
  show ?case by (simp split: option.splits)
next
  case (Cons attempt attempts)
  obtain r s1 where t: "attempt_try env rds_client cid action s = (r, s1)"
    by (cases "attempt_try env rds_client cid action s")
  from attempt_try_trace [OF t] have p: "prefix (trace s) (trace s1)"
    by (rule append_prefixD)
  have q: "prefix (trace s1) (trace (sleep env n s1))" for n
    by (simp add: sleep_def)
  show ?case
  proof (cases r)
    case (Inr new_status)
    with t p show ?thesis by simp
  next
    case (Inl exc)
    show ?thesis
    proof (cases "is_InvalidDBClusterStateFault exc")
      case True
      with Inl t p show ?thesis by simp
    next
      case False
      let ?s = "if attempt < MAX_RETRIES then sleep env RETRY_DELAY_SECONDS s1 else s1"
      have "prefix (trace s1) (trace ?s)"
        using q by simp
      with p have "prefix (trace s) (trace ?s)"
        by (rule prefix_order.trans)
      from this Cons.IH [where last_exception = "Some exc" and s = ?s]
      have "prefix (trace s)
              (trace (snd (retry_loop env rds_client cid action attempts (Some exc) ?s)))"
        by (rule prefix_order.trans)
      with Inl False t show ?thesis by simp
    qed
  qed
qed

lemma retry_loop_first_invocation:
  "prefix (trace s @ [if action = ACTION_START then Call_start_db_cluster cid
                      else Call_stop_db_cluster cid])
     (trace (snd (retry_loop env rds_client cid action (attempt # attempts)
                    last_exception s)))"
proof -
  let ?inv = "if action = ACTION_START then Call_start_db_cluster cid
              else Call_stop_db_cluster cid"
  obtain r s1 where t: "attempt_try env rds_client cid action s = (r, s1)"
    by (cases "attempt_try env rds_client cid action s")
  note p = attempt_try_trace [OF t]
  show ?thesis
  proof (cases r)
    case (Inr new_status)
    with t p show ?thesis by simp
  next
    case (Inl exc)
    show ?thesis
    proof (cases "is_InvalidDBClusterStateFault exc")
      case True
      with Inl t p show ?thesis by simp
    next
      case False
      let ?s = "if attempt < MAX_RETRIES then sleep env RETRY_DELAY_SECONDS s1 else s1"
      have "prefix (trace s1) (trace ?s)"
        by (simp add: sleep_def)
      with p have "prefix (trace s @ [?inv]) (trace ?s)"
        by (rule prefix_order.trans)
      from this retry_loop_trace_mono [where s = ?s and env = env and rds_client = rds_client and cid = cid and action = action and attempts = attempts and last_exception = "Some exc"]
      have "prefix (trace s @ [?inv])
              (trace (snd (retry_loop env rds_client cid action attempts (Some exc) ?s)))"
        by (rule prefix_order.trans)
      with Inl False t show ?thesis by simp
    qed
  qed
qed

text \<open>
  Claim C7, as the code has it. The confirmatory read of the status stands inside the
  \<^verbatim>\<open>try\<close> statement of the retry loop, one read after each successful invocation. When
  the invocation of an attempt has succeeded and the read raises a fault: an
  \<^verbatim>\<open>InvalidDBClusterStateFault\<close> is raised at once, at whatever attempt; any other fault
  is handled as a fault of the invocation is, so that at the first and at the second
  attempt the executor sleeps 5 seconds and invokes the start or stop operation again,
  and at the third attempt the fault of the read is the one
  \<open>perform_action_with_retry\<close> raises. The first conjuncts state this for one attempt
  of the loop, the last one for the three attempts of a run.
\<close>

theorem confirmation_read_fault_retried:
  assumes "api_call rds_client action cid s = (Inr u, sa)"
      and "fetch_status rds_client cid (sleep env 1 sa) = (Inl exc, sb)"
  shows "trace sb = trace s
           @ [if action = ACTION_START then Call_start_db_cluster cid
              else Call_stop_db_cluster cid, Sleep 1, Call_describe_db_clusters cid]
       \<and> (is_InvalidDBClusterStateFault exc
            \<longrightarrow> retry_loop env rds_client cid action (attempt # attempts) last_exception s
                  = (Inl exc, sb)
              \<and> perform_action_with_retry env rds_client cid action s = (Inl exc, sb))
       \<and> (\<not> is_InvalidDBClusterStateFault exc
            \<longrightarrow> retry_loop env rds_client cid action (attempt # attempts) last_exception s
                  = retry_loop env rds_client cid action attempts (Some exc)
                      (if attempt < MAX_RETRIES then sleep env RETRY_DELAY_SECONDS sb else sb)
              \<and> (attempt < MAX_RETRIES
                   \<longrightarrow> prefix
                         (trace sb
                          @ [Sleep 5, if action = ACTION_START then Call_start_db_cluster cid
                                      else Call_stop_db_cluster cid])
                         (trace (snd (retry_loop env rds_client cid action
                                        (attempt # next_attempt # attempts) last_exception s))))
              \<and> retry_loop env rds_client cid action [MAX_RETRIES] last_exception s
                  = (Inl exc, sb)
              \<and> perform_action_with_retry env rds_client cid action s
                  = retry_loop env rds_client cid action [2, 3] (Some exc)
                      (sleep env RETRY_DELAY_SECONDS sb)
              \<and> prefix
                  (trace sb
                   @ [Sleep 5, if action = ACTION_START then Call_start_db_cluster cid
                               else Call_stop_db_cluster cid])
                  (trace (snd (perform_action_with_retry env rds_client cid action s))))
       \<and> (\<not> is_InvalidDBClusterStateFault exc
            \<and> api_call rds_client action cid (sleep env RETRY_DELAY_SECONDS sb) = (Inr v, sc)
            \<and> fetch_status rds_client cid (sleep env 1 sc) = (Inl excd, sd)
            \<longrightarrow> (is_InvalidDBClusterStateFault excd
                   \<longrightarrow> perform_action_with_retry env rds_client cid action s = (Inl excd, sd))
              \<and> (\<not> is_InvalidDBClusterStateFault excd
                   \<longrightarrow> perform_action_with_retry env rds_client cid action s
                         = retry_loop env rds_client cid action [3] (Some excd)
                             (sleep env RETRY_DELAY_SECONDS sd)
                     \<and> prefix
                         (trace sd
                          @ [Sleep 5, if action = ACTION_START then Call_start_db_cluster cid
                                      else Call_stop_db_cluster cid])
                         (trace (snd (perform_action_with_retry env rds_client cid action s))))
              \<and> (\<not> is_InvalidDBClusterStateFault excd
                   \<and> api_call rds_client action cid (sleep env RETRY_DELAY_SECONDS sd)
                       = (Inr w, se)
                   \<and> fetch_status rds_client cid (sleep env 1 se) = (Inl excf, sf)
                   \<longrightarrow> perform_action_with_retry env rds_client cid action s = (Inl excf, sf)
                     \<and> trace sf = trace s
                         @ (let invocation =
                                  (if action = ACTION_START then Call_start_db_cluster cid
                                   else Call_stop_db_cluster cid)
                            in [invocation, Sleep 1, Call_describe_db_clusters cid, Sleep 5,
                                invocation, Sleep 1, Call_describe_db_clusters cid, Sleep 5,
                                invocation, Sleep 1, Call_describe_db_clusters cid])))"
proof -
  let ?inv = "if action = ACTION_START then Call_start_db_cluster cid
              else Call_stop_db_cluster cid"
  let ?perform = "perform_action_with_retry env rds_client cid action s"
  let ?delay = "sleep env RETRY_DELAY_SECONDS"
  have run: "?perform = retry_loop env rds_client cid action [1, 2, 3] None s"
    unfolding perform_action_with_retry_def attempts_range ..
  have try_fails: "attempt_try env rds_client cid action t = (Inl e, tb)"
    if "api_call rds_client action cid t = (Inr x, ta)"
       "fetch_status rds_client cid (sleep env 1 ta) = (Inl e, tb)" for t x ta e tb
    using that by (simp add: attempt_try_def)
  have try_trace: "trace tb = trace t @ [?inv, Sleep 1, Call_describe_db_clusters cid]"
    if "api_call rds_client action cid t = (Inr x, ta)"
       "fetch_status rds_client cid (sleep env 1 ta) = (Inl e, tb)" for t x ta e tb
    using api_call_trace [OF that(1)] fetch_status_trace [OF that(2)]
    by (simp add: sleep_def)
  note t1 = try_fails [OF assms]
  note tr1 = try_trace [OF assms]
  have delay_trace: "trace (?delay t) = trace t @ [Sleep 5]" for t
    by (simp add: sleep_def RETRY_DELAY_SECONDS_def)
  have a: "retry_loop env rds_client cid action (attempt # attempts) last_exception s
             = (Inl exc, sb)
           \<and> ?perform = (Inl exc, sb)"
    if i: "is_InvalidDBClusterStateFault exc"
    using retry_loop_invalid [OF t1 i] run by simp
  have b1: "retry_loop env rds_client cid action (attempt # attempts) last_exception s
              = retry_loop env rds_client cid action attempts (Some exc)
                  (if attempt < MAX_RETRIES then ?delay sb else sb)"
    if n: "\<not> is_InvalidDBClusterStateFault exc"
    using t1 n by (rule retry_loop_transient)
  have b2: "prefix (trace sb @ [Sleep 5, ?inv])
              (trace (snd (retry_loop env rds_client cid action
                             (attempt # next_attempt # attempts) last_exception s)))"
    if n: "\<not> is_InvalidDBClusterStateFault exc" and lt: "attempt < MAX_RETRIES"
  proof -
    have "retry_loop env rds_client cid action (attempt # next_attempt # attempts)
            last_exception s
          = retry_loop env rds_client cid action (next_attempt # attempts) (Some exc)
              (?delay sb)"
      using retry_loop_transient [OF t1 n] lt by simp
    with retry_loop_first_invocation
           [where s = "?delay sb" and action = action and cid = cid and env = env
              and rds_client = rds_client and attempt = next_attempt
              and attempts = attempts and last_exception = "Some exc"]
    show ?thesis by (simp add: delay_trace)
  qed
  have b3: "retry_loop env rds_client cid action [MAX_RETRIES] last_exception s
              = (Inl exc, sb)"
    if n: "\<not> is_InvalidDBClusterStateFault exc"
    using retry_loop_transient [OF t1 n] by simp
  have b4: "?perform = retry_loop env rds_client cid action [2, 3] (Some exc) (?delay sb)"
    if n: "\<not> is_InvalidDBClusterStateFault exc"
    using retry_loop_transient [OF t1 n] run by (simp add: MAX_RETRIES_def)
  have b5: "prefix (trace sb @ [Sleep 5, ?inv]) (trace (snd ?perform))"
    if n: "\<not> is_InvalidDBClusterStateFault exc"
    using retry_loop_first_invocation
            [where s = "?delay sb" and action = action and cid = cid and env = env
               and rds_client = rds_client and attempt = 2
               and attempts = "[3]" and last_exception = "Some exc"]
          b4 [OF n]
    by (simp add: delay_trace)
  have c: "(is_InvalidDBClusterStateFault excd \<longrightarrow> ?perform = (Inl excd, sd))
         \<and> (\<not> is_InvalidDBClusterStateFault excd
              \<longrightarrow> ?perform = retry_loop env rds_client cid action [3] (Some excd) (?delay sd)
                \<and> prefix (trace sd @ [Sleep 5, ?inv]) (trace (snd ?perform)))
         \<and> (\<not> is_InvalidDBClusterStateFault excd
              \<and> api_call rds_client action cid (?delay sd) = (Inr w, se)
              \<and> fetch_status rds_client cid (sleep env 1 se) = (Inl excf, sf)
              \<longrightarrow> ?perform = (Inl excf, sf)
                \<and> trace sf = trace s
                    @ [?inv, Sleep 1, Call_describe_db_clusters cid, Sleep 5,
                       ?inv, Sleep 1, Call_describe_db_clusters cid, Sleep 5,
                       ?inv, Sleep 1, Call_describe_db_clusters cid])"
    if n: "\<not> is_InvalidDBClusterStateFault exc"
      and inv2: "api_call rds_client action cid (?delay sb) = (Inr v, sc)"
      and read2: "fetch_status rds_client cid (sleep env 1 sc) = (Inl excd, sd)"
  proof -
    note t2 = try_fails [OF inv2 read2]
    have tr2: "trace sd = trace s @ [?inv, Sleep 1, Call_describe_db_clusters cid, Sleep 5,
                                     ?inv, Sleep 1, Call_describe_db_clusters cid]"
      using try_trace [OF inv2 read2] tr1 by (simp add: delay_trace)
    have c1: "?perform = (Inl excd, sd)" if i: "is_InvalidDBClusterStateFault excd"
      using b4 [OF n] retry_loop_invalid [OF t2 i] by simp
    have c2: "?perform = retry_loop env rds_client cid action [3] (Some excd) (?delay sd)"
      if m: "\<not> is_InvalidDBClusterStateFault excd"
      using b4 [OF n] retry_loop_transient [OF t2 m] by (simp add: MAX_RETRIES_def)
    have c3: "prefix (trace sd @ [Sleep 5, ?inv]) (trace (snd ?perform))"
      if m: "\<not> is_InvalidDBClusterStateFault excd"
      using retry_loop_first_invocation
              [where s = "?delay sd" and action = action and cid = cid and env = env
                 and rds_client = rds_client and attempt = 3
                 and attempts = "[]" and last_exception = "Some excd"]
            c2 [OF m]
      by (simp add: delay_trace)
    have c4: "?perform = (Inl excf, sf)
            \<and> trace sf = trace s
                @ [?inv, Sleep 1, Call_describe_db_clusters cid, Sleep 5,
                   ?inv, Sleep 1, Call_describe_db_clusters cid, Sleep 5,
                   ?inv, Sleep 1, Call_describe_db_clusters cid]"
      if m: "\<not> is_InvalidDBClusterStateFault excd"
        and inv3: "api_call rds_client action cid (?delay sd) = (Inr w, se)"
        and read3: "fetch_status rds_client cid (sleep env 1 se) = (Inl excf, sf)"
    proof -
      note t3 = try_fails [OF inv3 read3]
      have "retry_loop env rds_client cid action [3] (Some excd) (?delay sd) = (Inl excf, sf)"
      proof (cases "is_InvalidDBClusterStateFault excf")
        case True
        with t3 show ?thesis by (rule retry_loop_invalid)
      next
        case False
        with retry_loop_transient [OF t3 False] show ?thesis
          by (simp add: MAX_RETRIES_def)
      qed
      with c2 [OF m] have "?perform = (Inl excf, sf)"
        by simp
      moreover have "trace sf = trace s
                @ [?inv, Sleep 1, Call_describe_db_clusters cid, Sleep 5,
                   ?inv, Sleep 1, Call_describe_db_clusters cid, Sleep 5,
                   ?inv, Sleep 1, Call_describe_db_clusters cid]"
        using try_trace [OF inv3 read3] tr2 by (simp add: delay_trace)
      ultimately show ?thesis ..
    qed
    from c1 c2 c3 c4 show ?thesis by blast
  qed
  from tr1 a b1 b2 b3 b4 b5 c show ?thesis
    unfolding Let_def by blast
qed

theorem confirmation_read_fault_retried_witness:
  "api_call unreadable_client ''stop'' ''c1'' s0
     = (Inr (), \<lparr>world = (), trace = [Call_stop_db_cluster ''c1'']\<rparr>)
   \<and> fetch_status unreadable_client ''c1''
         (sleep (fake_env unreadable_client) 1
            \<lparr>world = (), trace = [Call_stop_db_cluster ''c1'']\<rparr>)
       = (Inl (OtherException ''timeout''),
          \<lparr>world = (),
           trace = [Call_stop_db_cluster ''c1'', Sleep 1, Call_describe_db_clusters ''c1'']\<rparr>)
   \<and> \<not> is_InvalidDBClusterStateFault (OtherException ''timeout'')
   \<and> perform_action_with_retry (fake_env unreadable_client) unreadable_client ''c1'' ''stop'' s0
       = (Inl (OtherException ''timeout''),
          \<lparr>world = (),
           trace = [Call_stop_db_cluster ''c1'', Sleep 1, Call_describe_db_clusters ''c1'',
                    Sleep 5,
                    Call_stop_db_cluster ''c1'', Sleep 1, Call_describe_db_clusters ''c1'',
                    Sleep 5,
                    Call_stop_db_cluster ''c1'', Sleep 1, Call_describe_db_clusters ''c1'']\<rparr>)"
proof -
  let ?env = "fake_env unreadable_client"
  let ?t1 = "[Call_stop_db_cluster ''c1'', Sleep 1, Call_describe_db_clusters ''c1'']"
  let ?sa = "\<lparr>world = (), trace = [Call_stop_db_cluster ''c1'']\<rparr>"
  let ?sb = "\<lparr>world = (), trace = ?t1\<rparr>"
  let ?sc = "\<lparr>world = (), trace = ?t1 @ [Sleep 5, Call_stop_db_cluster ''c1'']\<rparr>"
  let ?sd = "\<lparr>world = (), trace = ?t1 @ [Sleep 5] @ ?t1\<rparr>"
  let ?se = "\<lparr>world = (),
              trace = ?t1 @ [Sleep 5] @ ?t1 @ [Sleep 5, Call_stop_db_cluster ''c1'']\<rparr>"
  let ?sf = "\<lparr>world = (), trace = ?t1 @ [Sleep 5] @ ?t1 @ [Sleep 5] @ ?t1\<rparr>"
  note defs = api_call_def fetch_status_def remote_def sleep_def unreadable_client_def
    fake_client_def fake_env_def s0_def ACTION_START_def RETRY_DELAY_SECONDS_def
  have n: "\<not> is_InvalidDBClusterStateFault (OtherException ''timeout'')"
    by simp
  have h1: "api_call unreadable_client ''stop'' ''c1'' s0 = (Inr (), ?sa)"
    by (simp add: defs)
  have h2: "fetch_status unreadable_client ''c1'' (sleep ?env 1 ?sa)
              = (Inl (OtherException ''timeout''), ?sb)"
    by (simp add: defs)
  have h3: "api_call unreadable_client ''stop'' ''c1'' (sleep ?env RETRY_DELAY_SECONDS ?sb)
              = (Inr (), ?sc)"
    by (simp add: defs)
  have h4: "fetch_status unreadable_client ''c1'' (sleep ?env 1 ?sc)
              = (Inl (OtherException ''timeout''), ?sd)"
    by (simp add: defs)
  have h5: "api_call unreadable_client ''stop'' ''c1'' (sleep ?env RETRY_DELAY_SECONDS ?sd)
              = (Inr (), ?se)"
    by (simp add: defs)
  have h6: "fetch_status unreadable_client ''c1'' (sleep ?env 1 ?se)
              = (Inl (OtherException ''timeout''), ?sf)"
    by (simp add: defs)
  note run = confirmation_read_fault_retried
               [OF h1 h2, THEN conjunct2, THEN conjunct2, THEN conjunct2, THEN mp,
                OF conjI [OF n conjI [OF h3 h4]], THEN conjunct2, THEN conjunct2, THEN mp,
                OF conjI [OF n conjI [OF h5 h6]], THEN conjunct1]
  from run h1 h2 n show ?thesis
    by simp
qed

text \<open>
  The claim as stated fails: with a client whose stop operation succeeds and whose reads
  of the status time out, the fault of the first read is caught by the loop and the stop
  operation is invoked a second and a third time.
\<close>

theorem confirmation_read_single_shot_counterexample:
  "api_call unreadable_client ''stop'' ''c1'' s0
     = (Inr (), \<lparr>world = (), trace = [Call_stop_db_cluster ''c1'']\<rparr>)
   \<and> perform_action_with_retry (fake_env unreadable_client) unreadable_client ''c1'' ''stop'' s0
       = (Inl (OtherException ''timeout''),
          \<lparr>world = (),
           trace = [Call_stop_db_cluster ''c1'', Sleep 1, Call_describe_db_clusters ''c1'',
                    Sleep 5,
                    Call_stop_db_cluster ''c1'', Sleep 1, Call_describe_db_clusters ''c1'',
                    Sleep 5,
                    Call_stop_db_cluster ''c1'', Sleep 1, Call_describe_db_clusters ''c1'']\<rparr>)
   \<and> trace (snd (perform_action_with_retry (fake_env unreadable_client) unreadable_client
                    ''c1'' ''stop'' s0))
       \<noteq> [Call_stop_db_cluster ''c1'', Sleep 1, Call_describe_db_clusters ''c1'']"
  unfolding perform_action_with_retry_def attempts_range
  by (simp add: attempt_try_def api_call_def fetch_status_def remote_def sleep_def
        unreadable_client_def fake_client_def fake_env_def s0_def ACTION_START_def
        MAX_RETRIES_def RETRY_DELAY_SECONDS_def)

section \<open>Properties of the transition guard\<close>

lemma process_cluster_skips:
  assumes "fetch_status rds_client cid s = (Inr st, s1)"
      and "transition_guard action st
             \<lparr>cluster_id = cid, outcome = ''failed'', message = '''', status = st\<rparr> = Some r"
  shows "process_cluster env rds_client cid action s = (r, s1)"
  using assms by (simp add: process_cluster_def)

lemma process_cluster_proceeds:
  assumes "fetch_status rds_client cid s = (Inr st, s1)"
      and "transition_guard action st
             \<lparr>cluster_id = cid, outcome = ''failed'', message = '''', status = st\<rparr> = None"
  shows "snd (process_cluster env rds_client cid action s)
           = snd (perform_action_with_retry env rds_client cid action s1)
       \<and> outcome (fst (process_cluster env rds_client cid action s))
           = (case fst (perform_action_with_retry env rds_client cid action s1) of
                Inl exc \<Rightarrow> ''failed'' | Inr new_status \<Rightarrow> ''processed'')"
proof (cases "perform_action_with_retry env rds_client cid action s1")
  case (Pair r s2)
  with assms show ?thesis
    by (cases r) (simp_all add: process_cluster_def on_exception_def)
qed

text \<open>
  Claim C1. Let \<open>st\<close> be the status that \<open>process_cluster\<close> has fetched. For the
  action \<^verbatim>\<open>start\<close>: when \<open>st\<close> is \<^verbatim>\<open>available\<close> or \<^verbatim>\<open>starting\<close> the outcome is
  \<^verbatim>\<open>skipped\<close>; when \<open>st\<close> is \<^verbatim>\<open>stopped\<close> the function goes on to
  \<open>perform_action_with_retry\<close> (its final state is the one of the executor and its outcome
  is \<^verbatim>\<open>processed\<close> or \<^verbatim>\<open>failed\<close> as the executor returns or raises); for every other
  \<open>st\<close> the outcome is \<^verbatim>\<open>skipped\<close>. For the action \<^verbatim>\<open>stop\<close> the same holds with
  \<^verbatim>\<open>stopped\<close> or \<^verbatim>\<open>stopping\<close> skipped and \<^verbatim>\<open>available\<close> the one state to proceed from.
  A skipped cluster keeps the fetched status and no remote call follows the fetch.
\<close>

theorem transition_guard_one_source_state:
  assumes "fetch_status rds_client cid s = (Inr st, s1)"
  shows "(st = STATUS_AVAILABLE \<or> st = STATUS_STARTING \<or> st \<noteq> STATUS_STOPPED
            \<longrightarrow> outcome (fst (process_cluster env rds_client cid ACTION_START s)) = ''skipped''
              \<and> status (fst (process_cluster env rds_client cid ACTION_START s)) = st
              \<and> snd (process_cluster env rds_client cid ACTION_START s) = s1)
       \<and> (st = STATUS_STOPPED
            \<longrightarrow> snd (process_cluster env rds_client cid ACTION_START s)
                  = snd (perform_action_with_retry env rds_client cid ACTION_START s1)
              \<and> outcome (fst (process_cluster env rds_client cid ACTION_START s))
                  = (case fst (perform_action_with_retry env rds_client cid ACTION_START s1) of
                       Inl exc \<Rightarrow> ''failed'' | Inr new_status \<Rightarrow> ''processed''))
       \<and> (st = STATUS_STOPPED \<or> st = STATUS_STOPPING \<or> st \<noteq> STATUS_AVAILABLE
            \<longrightarrow> outcome (fst (process_cluster env rds_client cid ACTION_STOP s)) = ''skipped''
              \<and> status (fst (process_cluster env rds_client cid ACTION_STOP s)) = st
              \<and> snd (process_cluster env rds_client cid ACTION_STOP s) = s1)
       \<and> (st = STATUS_AVAILABLE
            \<longrightarrow> snd (process_cluster env rds_client cid ACTION_STOP s)
                  = snd (perform_action_with_retry env rds_client cid ACTION_STOP s1)
              \<and> outcome (fst (process_cluster env rds_client cid ACTION_STOP s))
                  = (case fst (perform_action_with_retry env rds_client cid ACTION_STOP s1) of
                       Inl exc \<Rightarrow> ''failed'' | Inr new_status \<Rightarrow> ''processed''))"
proof -
  let ?res = "\<lparr>cluster_id = cid, outcome = ''failed'', message = '''', status = st\<rparr>"
  have ne: "ACTION_STOP \<noteq> ACTION_START"
    by (simp add: ACTION_START_def ACTION_STOP_def)
  have sts: "STATUS_AVAILABLE \<noteq> STATUS_STOPPED" "STATUS_STARTING \<noteq> STATUS_STOPPED"
            "STATUS_STOPPING \<noteq> STATUS_AVAILABLE"
    by (simp_all add: STATUS_AVAILABLE_def STATUS_STOPPED_def STATUS_STARTING_def
          STATUS_STOPPING_def)
  have start_skip: "\<exists>m. transition_guard ACTION_START st ?res
                      = Some (?res\<lparr>outcome := ''skipped'', message := m\<rparr>)"
    if "st = STATUS_AVAILABLE \<or> st = STATUS_STARTING \<or> st \<noteq> STATUS_STOPPED"
    using that sts by (auto simp add: transition_guard_def)
  have stop_skip: "\<exists>m. transition_guard ACTION_STOP st ?res
                      = Some (?res\<lparr>outcome := ''skipped'', message := m\<rparr>)"
    if "st = STATUS_STOPPED \<or> st = STATUS_STOPPING \<or> st \<noteq> STATUS_AVAILABLE"
    using that sts ne by (auto simp add: transition_guard_def)
  have start_go: "transition_guard ACTION_START st ?res = None" if "st = STATUS_STOPPED"
    using that sts by (auto simp add: transition_guard_def)
  have stop_go: "transition_guard ACTION_STOP st ?res = None" if "st = STATUS_AVAILABLE"
    using that sts ne by (auto simp add: transition_guard_def)
  have a: "outcome (fst (process_cluster env rds_client cid ACTION_START s)) = ''skipped''
              \<and> status (fst (process_cluster env rds_client cid ACTION_START s)) = st
              \<and> snd (process_cluster env rds_client cid ACTION_START s) = s1"
    if "st = STATUS_AVAILABLE \<or> st = STATUS_STARTING \<or> st \<noteq> STATUS_STOPPED"
  proof -
    from start_skip [OF that] obtain m where
      "transition_guard ACTION_START st ?res = Some (?res\<lparr>outcome := ''skipped'', message := m\<rparr>)"
      by blast
    from process_cluster_skips [OF assms this, of env] show ?thesis by simp
  qed
  have b: "outcome (fst (process_cluster env rds_client cid ACTION_STOP s)) = ''skipped''
              \<and> status (fst (process_cluster env rds_client cid ACTION_STOP s)) = st
              \<and> snd (process_cluster env rds_client cid ACTION_STOP s) = s1"
    if "st = STATUS_STOPPED \<or> st = STATUS_STOPPING \<or> st \<noteq> STATUS_AVAILABLE"
  proof -
    from stop_skip [OF that] obtain m where
      "transition_guard ACTION_STOP st ?res = Some (?res\<lparr>outcome := ''skipped'', message := m\<rparr>)"
      by blast
    from process_cluster_skips [OF assms this, of env] show ?thesis by simp
  qed
  note c = process_cluster_proceeds [OF assms start_go, of env]
  note d = process_cluster_proceeds [OF assms stop_go, of env]
  from a b c d show ?thesis by blast
qed

theorem transition_guard_one_source_state_witness:
  "fetch_status (steady_client ''stopped'') ''c1'' s0
     = (Inr ''stopped'', \<lparr>world = (), trace = [Call_describe_db_clusters ''c1'']\<rparr>)
   \<and> ''stopped'' = STATUS_STOPPED
   \<and> snd (process_cluster (fake_env (steady_client ''stopped'')) (steady_client ''stopped'')
             ''c1'' ACTION_START s0)
       = \<lparr>world = (),
          trace = [Call_describe_db_clusters ''c1'', Call_start_db_cluster ''c1'', Sleep 1,
                   Call_describe_db_clusters ''c1'']\<rparr>
   \<and> outcome (fst (process_cluster (fake_env (steady_client ''stopped''))
                      (steady_client ''stopped'') ''c1'' ACTION_START s0)) = ''processed''
   \<and> outcome (fst (process_cluster (fake_env (steady_client ''stopped''))
                      (steady_client ''stopped'') ''c1'' ACTION_STOP s0)) = ''skipped''
   \<and> snd (process_cluster (fake_env (steady_client ''stopped'')) (steady_client ''stopped'')
             ''c1'' ACTION_STOP s0)
       = \<lparr>world = (), trace = [Call_describe_db_clusters ''c1'']\<rparr>
   \<and> fetch_status (steady_client ''available'') ''c1'' s0
       = (Inr ''available'', \<lparr>world = (), trace = [Call_describe_db_clusters ''c1'']\<rparr>)
   \<and> ''available'' = STATUS_AVAILABLE
   \<and> outcome (fst (process_cluster (fake_env (steady_client ''available''))
                      (steady_client ''available'') ''c1'' ACTION_START s0)) = ''skipped''
   \<and> outcome (fst (process_cluster (fake_env (steady_client ''available''))
                      (steady_client ''available'') ''c1'' ACTION_STOP s0)) = ''processed''"
proof -
  let ?cl = "steady_client ''stopped''"
  let ?cl' = "steady_client ''available''"
  let ?s1 = "\<lparr>world = (), trace = [Call_describe_db_clusters ''c1'']\<rparr>"
  have h: "fetch_status ?cl ''c1'' s0 = (Inr ''stopped'', ?s1)"
    by (simp add: fetch_status_def remote_def steady_client_def fake_client_def s0_def
          status_response_def)
  have st: "''stopped'' = STATUS_STOPPED" "''stopped'' \<noteq> STATUS_AVAILABLE"
    by (simp_all add: STATUS_STOPPED_def STATUS_AVAILABLE_def)
  have ex: "perform_action_with_retry (fake_env ?cl) ?cl ''c1'' ACTION_START ?s1
              = (Inr ''stopped'',
                 \<lparr>world = (),
                  trace = [Call_describe_db_clusters ''c1'', Call_start_db_cluster ''c1'',
                           Sleep 1, Call_describe_db_clusters ''c1'']\<rparr>)"
    unfolding perform_action_with_retry_def attempts_range
    by (simp add: attempt_try_def api_call_def fetch_status_def remote_def sleep_def
          steady_client_def fake_client_def fake_env_def status_response_def)
  have h': "fetch_status ?cl' ''c1'' s0 = (Inr ''available'', ?s1)"
    by (simp add: fetch_status_def remote_def steady_client_def fake_client_def s0_def
          status_response_def)
  have st': "''available'' = STATUS_AVAILABLE" "''available'' \<noteq> STATUS_STOPPED"
    by (simp_all add: STATUS_STOPPED_def STATUS_AVAILABLE_def)
  have ex': "perform_action_with_retry (fake_env ?cl') ?cl' ''c1'' ACTION_STOP ?s1
              = (Inr ''available'',
                 \<lparr>world = (),
                  trace = [Call_describe_db_clusters ''c1'', Call_stop_db_cluster ''c1'',
                           Sleep 1, Call_describe_db_clusters ''c1'']\<rparr>)"
    unfolding perform_action_with_retry_def attempts_range
    by (simp add: attempt_try_def api_call_def fetch_status_def remote_def sleep_def
          steady_client_def fake_client_def fake_env_def status_response_def
          ACTION_START_def ACTION_STOP_def)
  show ?thesis
    using transition_guard_one_source_state [OF h, of "fake_env ?cl"]
          transition_guard_one_source_state [OF h', of "fake_env ?cl'"]
          h st ex h' st' ex'
    by simp
qed

lemma py_lower_statuses:
  "py_lower STATUS_AVAILABLE = STATUS_AVAILABLE" "py_lower STATUS_STOPPED = STATUS_STOPPED"
  "py_lower STATUS_STARTING = STATUS_STARTING" "py_lower STATUS_STOPPING = STATUS_STOPPING"
  by (simp_all add: py_lower_def lower_char_def STATUS_AVAILABLE_def STATUS_STOPPED_def
        STATUS_STARTING_def STATUS_STOPPING_def)

text \<open>
  Claim C10. The guard compares the fetched status with the lowercase literals
  \<^verbatim>\<open>available\<close>, \<^verbatim>\<open>stopped\<close>, \<^verbatim>\<open>starting\<close>, \<^verbatim>\<open>stopping\<close> as it is, without
  normalising its case. A status that lowercases to one of the four names and is not
  itself lowercase (such as \<^verbatim>\<open>Stopped\<close>) is therefore none of the named states: for the
  action \<^verbatim>\<open>start\<close> as for \<^verbatim>\<open>stop\<close> the outcome is \<^verbatim>\<open>skipped\<close> with the message of an
  unsuited source state, and nothing is executed.
\<close>

theorem transition_guard_case_sensitive:
  assumes "fetch_status rds_client cid s = (Inr st, s1)"
      and "py_lower st \<in> {STATUS_AVAILABLE, STATUS_STOPPED, STATUS_STARTING, STATUS_STOPPING}"
      and "st \<noteq> py_lower st"
      and "action \<in> {ACTION_START, ACTION_STOP}"
  shows "st \<notin> {STATUS_AVAILABLE, STATUS_STOPPED, STATUS_STARTING, STATUS_STOPPING}
       \<and> process_cluster env rds_client cid action s
           = (\<lparr>cluster_id = cid, outcome = ''skipped'',
               message = ''Cannot '' @ action @ '' from '' @ quoted st @ '' state.'',
               status = st\<rparr>, s1)"
proof -
  let ?res = "\<lparr>cluster_id = cid, outcome = ''failed'', message = '''', status = st\<rparr>"
  have other: "st \<notin> {STATUS_AVAILABLE, STATUS_STOPPED, STATUS_STARTING, STATUS_STOPPING}"
    using assms(3) py_lower_statuses by auto
  have ne: "ACTION_STOP \<noteq> ACTION_START"
    by (simp add: ACTION_START_def ACTION_STOP_def)
  have "transition_guard action st ?res
          = Some \<lparr>cluster_id = cid, outcome = ''skipped'',
                  message = ''Cannot '' @ action @ '' from '' @ quoted st @ '' state.'',
                  status = st\<rparr>"
    using other assms(4) ne
    by (auto simp add: transition_guard_def) (simp_all add: ACTION_START_def ACTION_STOP_def)
  from process_cluster_skips [OF assms(1) this, of env] other show ?thesis
    by simp
qed

theorem transition_guard_case_sensitive_witness:
  "fetch_status (steady_client ''Stopped'') ''c1'' s0
     = (Inr ''Stopped'', \<lparr>world = (), trace = [Call_describe_db_clusters ''c1'']\<rparr>)
   \<and> py_lower ''Stopped'' = STATUS_STOPPED
   \<and> ''Stopped'' \<noteq> py_lower ''Stopped''
   \<and> process_cluster (fake_env (steady_client ''Stopped'')) (steady_client ''Stopped'')
         ''c1'' ACTION_START s0
       = (\<lparr>cluster_id = ''c1'', outcome = ''skipped'',
           message = ''Cannot start from '' @ quoted ''Stopped'' @ '' state.'',
           status = ''Stopped''\<rparr>,
          \<lparr>world = (), trace = [Call_describe_db_clusters ''c1'']\<rparr>)"
proof -
  let ?cl = "steady_client ''Stopped''"
  have h: "fetch_status ?cl ''c1'' s0
     = (Inr ''Stopped'', \<lparr>world = (), trace = [Call_describe_db_clusters ''c1'']\<rparr>)"
    by (simp add: fetch_status_def remote_def steady_client_def fake_client_def s0_def
          status_response_def)
  have l: "py_lower ''Stopped'' = STATUS_STOPPED"
    by (simp add: py_lower_def lower_char_def STATUS_STOPPED_def)
  have m: "py_lower ''Stopped''
             \<in> {STATUS_AVAILABLE, STATUS_STOPPED, STATUS_STARTING, STATUS_STOPPING}"
    using l by simp
  have n: "''Stopped'' \<noteq> py_lower ''Stopped''"
    by (simp add: py_lower_def lower_char_def)
  have a: "ACTION_START \<in> {ACTION_START, ACTION_STOP}"
    by simp
  show ?thesis
    using transition_guard_case_sensitive [OF h m n a, of "fake_env ?cl"] h l n
    by (simp add: ACTION_START_def)
qed

section \<open>Properties of the tag gate\<close>

lemma any_key_present:
  assumes "\<forall>tag \<in> set tags. ''Key'' \<in> dom tag"
  shows "any_key tags tag_key = Inr (\<exists>tag \<in> set tags. tag ''Key'' = Some tag_key)"
  using assms by (induction tags) auto

lemma has_schedule_tag_trace:
  assumes "has_schedule_tag rds_client arn tag_key s = (b, s1)"
  shows "trace s1 = trace s @ [Call_list_tags_for_resource arn]"
  using assms
  by (auto simp add: has_schedule_tag_def has_schedule_tag_try_def remote_def
        split: prod.splits sum.splits option.splits)

lemma has_schedule_tag_found:
  assumes "list_tags_for_resource rds_client arn (world s) = (Inr resp, w1)"
      and "resp ''TagList'' = Some tags"
      and "\<forall>tag \<in> set tags. ''Key'' \<in> dom tag"
  shows "has_schedule_tag rds_client arn tag_key s
           = ((\<exists>tag \<in> set tags. tag ''Key'' = Some tag_key),
              \<lparr>world = w1, trace = trace s @ [Call_list_tags_for_resource arn]\<rparr>)"
  using assms(1,2) any_key_present [OF assms(3), of tag_key]
  by (simp add: has_schedule_tag_def has_schedule_tag_try_def remote_def)

lemma select_eligible_lookup_fails:
  assumes "is_stoppable_cluster cluster = Inr True"
      and "cluster ''DBClusterArn'' = Some arn"
      and "has_schedule_tag_try rds_client arn tag_key s = (Inl exc, s1)"
  shows "select_eligible rds_client tag_key (cluster # clusters) eligible s
           = select_eligible rds_client tag_key clusters eligible s1"
  using assms by (simp add: has_schedule_tag_def)

text \<open>
  Claim C4. When the lookup of the tags of a resource succeeds,
  \<open>has_schedule_tag\<close> returns True exactly when the tag list contains a tag whose key is
  the given key; the values of the tags play no part. When the lookup fails, be it that
  the remote call raises or that the response has no tag list, the function returns False
  and raises nothing, and the loop that selects the eligible clusters goes on with the
  next cluster.
\<close>

theorem has_schedule_tag_presence:
  "(list_tags_for_resource rds_client arn (world s) = (Inr resp, w1)
      \<and> resp ''TagList'' = Some tags \<and> (\<forall>tag \<in> set tags. ''Key'' \<in> dom tag)
      \<longrightarrow> has_schedule_tag rds_client arn tag_key s
            = ((\<exists>tag \<in> set tags. tag ''Key'' = Some tag_key),
               \<lparr>world = w1, trace = trace s @ [Call_list_tags_for_resource arn]\<rparr>))
   \<and> (list_tags_for_resource rds_client arn (world s) = (Inl exc, w1)
      \<longrightarrow> has_schedule_tag rds_client arn tag_key s
            = (False, \<lparr>world = w1, trace = trace s @ [Call_list_tags_for_resource arn]\<rparr>))
   \<and> (list_tags_for_resource rds_client arn (world s) = (Inr resp, w1)
      \<and> resp ''TagList'' = None
      \<longrightarrow> has_schedule_tag rds_client arn tag_key s
            = (False, \<lparr>world = w1, trace = trace s @ [Call_list_tags_for_resource arn]\<rparr>))
   \<and> (has_schedule_tag_try rds_client arn tag_key s = (Inl exc, s1)
      \<longrightarrow> has_schedule_tag rds_client arn tag_key s = (False, s1)
        \<and> (is_stoppable_cluster cluster = Inr True \<and> cluster ''DBClusterArn'' = Some arn
            \<longrightarrow> select_eligible rds_client tag_key (cluster # clusters) eligible s
                  = select_eligible rds_client tag_key clusters eligible s1))"
proof -
  have a: "has_schedule_tag rds_client arn tag_key s
            = ((\<exists>tag \<in> set tags. tag ''Key'' = Some tag_key),
               \<lparr>world = w1, trace = trace s @ [Call_list_tags_for_resource arn]\<rparr>)"
    if "list_tags_for_resource rds_client arn (world s) = (Inr resp, w1)"
       "resp ''TagList'' = Some tags" "\<forall>tag \<in> set tags. ''Key'' \<in> dom tag"
    using that by (rule has_schedule_tag_found)
  have b: "has_schedule_tag rds_client arn tag_key s
            = (False, \<lparr>world = w1, trace = trace s @ [Call_list_tags_for_resource arn]\<rparr>)"
    if "list_tags_for_resource rds_client arn (world s) = (Inl exc, w1)"
    using that by (simp add: has_schedule_tag_def has_schedule_tag_try_def remote_def)
  have c: "has_schedule_tag rds_client arn tag_key s
            = (False, \<lparr>world = w1, trace = trace s @ [Call_list_tags_for_resource arn]\<rparr>)"
    if "list_tags_for_resource rds_client arn (world s) = (Inr resp, w1)"
       "resp ''TagList'' = None"
    using that by (simp add: has_schedule_tag_def has_schedule_tag_try_def remote_def)
  have d: "has_schedule_tag rds_client arn tag_key s = (False, s1)"
    if "has_schedule_tag_try rds_client arn tag_key s = (Inl exc, s1)"
    using that by (simp add: has_schedule_tag_def)
  have e: "select_eligible rds_client tag_key (cluster # clusters) eligible s
             = select_eligible rds_client tag_key clusters eligible s1"
    if "has_schedule_tag_try rds_client arn tag_key s = (Inl exc, s1)"
       "is_stoppable_cluster cluster = Inr True" "cluster ''DBClusterArn'' = Some arn"
    using that(2,3,1) by (rule select_eligible_lookup_fails)
  from a b c d e show ?thesis by blast
qed

theorem has_schedule_tag_presence_witness:
  "list_tags_for_resource fleet_client ''arn:c2'' (world s0)
     = (Inr (tag_response [''Owner'', ''Schedule'']), ())
   \<and> tag_response [''Owner'', ''Schedule''] ''TagList''
       = Some [[''Key'' \<mapsto> ''Owner'', ''Value'' \<mapsto> ''true''],
               [''Key'' \<mapsto> ''Schedule'', ''Value'' \<mapsto> ''true'']]
   \<and> has_schedule_tag fleet_client ''arn:c2'' ''Schedule'' s0
       = (True, \<lparr>world = (), trace = [Call_list_tags_for_resource ''arn:c2'']\<rparr>)
   \<and> has_schedule_tag fleet_client ''arn:c2'' ''Backup'' s0
       = (False, \<lparr>world = (), trace = [Call_list_tags_for_resource ''arn:c2'']\<rparr>)
   \<and> list_tags_for_resource fleet_client ''arn:c7'' (world s0)
       = (Inl (OtherException ''AccessDenied''), ())
   \<and> has_schedule_tag fleet_client ''arn:c7'' ''Schedule'' s0
       = (False, \<lparr>world = (), trace = [Call_list_tags_for_resource ''arn:c7'']\<rparr>)"
proof -
  let ?tags = "[[''Key'' \<mapsto> ''Owner'', ''Value'' \<mapsto> ''true''],
                [''Key'' \<mapsto> ''Schedule'', ''Value'' \<mapsto> ''true'']]"
  have h1: "list_tags_for_resource fleet_client ''arn:c2'' (world s0)
              = (Inr (tag_response [''Owner'', ''Schedule'']), ())"
    by (simp add: fleet_client_def fake_client_def)
  have h2: "tag_response [''Owner'', ''Schedule''] ''TagList'' = Some ?tags"
    by (simp add: tag_response_def)
  have h3: "\<forall>tag \<in> set ?tags. ''Key'' \<in> dom tag"
    by simp
  have h4: "list_tags_for_resource fleet_client ''arn:c7'' (world s0)
              = (Inl (OtherException ''AccessDenied''), ())"
    by (simp add: fleet_client_def fake_client_def)
  have t: "trace s0 = []"
    by (simp add: s0_def)
  note th1 = has_schedule_tag_presence
               [where tag_key = "''Schedule''",
                THEN conjunct1, THEN mp, OF conjI [OF h1 conjI [OF h2 h3]]]
  note th2 = has_schedule_tag_presence
               [where tag_key = "''Backup''",
                THEN conjunct1, THEN mp, OF conjI [OF h1 conjI [OF h2 h3]]]
  note th3 = has_schedule_tag_presence
               [where tag_key = "''Schedule''",
                THEN conjunct2, THEN conjunct1, THEN mp, OF h4]
  show ?thesis
    using th1 th2 th3 h1 h2 h3 h4 t by simp
qed

section \<open>Properties of the orchestrator\<close>

subsection \<open>The trace only grows\<close>

lemma process_cluster_trace_mono:
  "prefix (trace s) (trace (snd (process_cluster env rds_client cid action s)))"
proof -
  obtain r s1 where f: "fetch_status rds_client cid s = (r, s1)"
    by (cases "fetch_status rds_client cid s")
  from fetch_status_trace [OF f] have p: "prefix (trace s) (trace s1)"
    by simp
  show ?thesis
  proof (cases r)
    case (Inl exc)
    with f p show ?thesis by (simp add: process_cluster_def)
  next
    case (Inr st)
    let ?res = "\<lparr>cluster_id = cid, outcome = ''failed'', message = '''', status = st\<rparr>"
    from Inr f have f': "fetch_status rds_client cid s = (Inr st, s1)"
      by simp
    show ?thesis
    proof (cases "transition_guard action st ?res")
      case (Some r')
      from process_cluster_skips [OF f' Some, of env] p show ?thesis by simp
    next
      case None
      have "prefix (trace s1)
              (trace (snd (perform_action_with_retry env rds_client cid action s1)))"
        unfolding perform_action_with_retry_def by (rule retry_loop_trace_mono)
      with p have "prefix (trace s)
              (trace (snd (perform_action_with_retry env rds_client cid action s1)))"
        by (rule prefix_order.trans)
      with process_cluster_proceeds [OF f' None, of env] show ?thesis by simp
    qed
  qed
qed

lemma process_all_trace_mono:
  "prefix (trace s) (trace (snd (process_all env rds_client action eligible acc s)))"
proof (induction eligible arbitrary: acc s)
  case Nil
  show ?case by simp
next
  case (Cons cid eligible)
  obtain processed skipped failed where acc: "acc = (processed, skipped, failed)"
    by (cases acc)
  obtain res s1 where pc: "process_cluster env rds_client cid action s = (res, s1)"
    by (cases "process_cluster env rds_client cid action s")
  from process_cluster_trace_mono [of s env rds_client cid action] pc
  have p: "prefix (trace s) (trace s1)" by simp
  have "prefix (trace s) (trace (snd (process_all env rds_client action eligible acc' s1)))"
    for acc'
    using p Cons.IH [of s1 acc'] by (rule prefix_order.trans)
  with acc pc show ?case by simp
qed

lemma select_eligible_trace_mono:
  "prefix (trace s) (trace (snd (select_eligible rds_client tag_key clusters eligible s)))"
proof (induction clusters arbitrary: eligible s)
  case Nil
  show ?case by simp
next
  case (Cons c clusters)
  show ?case
  proof (cases "is_stoppable_cluster c")
    case (Inl exc)
    then show ?thesis by simp
  next
    case (Inr stoppable)
    show ?thesis
    proof (cases stoppable)
      case False
      with Inr Cons.IH [of s eligible] show ?thesis by simp
    next
      case True
      show ?thesis
      proof (cases "c ''DBClusterArn''")
        case None
        with Inr True show ?thesis by simp
      next
        case (Some arn)
        obtain tagged s1 where t: "has_schedule_tag rds_client arn tag_key s = (tagged, s1)"
          by (cases "has_schedule_tag rds_client arn tag_key s")
        from has_schedule_tag_trace [OF t] have p: "prefix (trace s) (trace s1)"
          by simp
        have q: "prefix (trace s)
                   (trace (snd (select_eligible rds_client tag_key clusters el s1)))" for el
          using p Cons.IH [of s1 el] by (rule prefix_order.trans)
        show ?thesis
        proof (cases tagged)
          case False
          with Inr True Some t q show ?thesis by simp
        next
          case tg: True
          show ?thesis
          proof (cases "c ''DBClusterIdentifier''")
            case None
            with Inr True Some t tg p show ?thesis by simp
          next
            case (Some cid)
            with Inr True \<open>c ''DBClusterArn'' = Some arn\<close> t tg q show ?thesis by simp
          qed
        qed
      qed
    qed
  qed
qed

lemma handler_invalid:
  assumes "py_lower (dict_get event ''Action'' '''') \<notin> {ACTION_START, ACTION_STOP}"
  shows "handler env event ctx s = (Inl (ValueError (invalid_action_message event)), s)"
  using assms by (simp add: handler_def Let_def)

lemma handler_valid_trace:
  assumes "py_lower (dict_get event ''Action'' '''') \<in> {ACTION_START, ACTION_STOP}"
  shows "prefix (trace s @ [Call_boto3_client ''rds''])
           (trace (snd (handler env event ctx s)))"
proof -
  let ?action = "py_lower (dict_get event ''Action'' '''')"
  let ?tag_key = "dict_get event ''ScheduleTagKey'' ''Schedule''"
  obtain r1 s1 where c: "remote (Call_boto3_client ''rds'') (boto3_client env ''rds'') s
                           = (r1, s1)"
    by (cases "remote (Call_boto3_client ''rds'') (boto3_client env ''rds'') s")
  then have t1: "trace s1 = trace s @ [Call_boto3_client ''rds'']"
    by (auto simp add: remote_def split: prod.splits)
  show ?thesis
  proof (cases r1)
    case (Inl exc)
    with assms c t1 show ?thesis by (simp add: handler_def Let_def)
  next
    case (Inr rds_client)
    obtain r2 s2 where pg: "remote Call_paginate (paginate rds_client) s1 = (r2, s2)"
      by (cases "remote Call_paginate (paginate rds_client) s1")
    then have t2: "trace s2 = trace s1 @ [Call_paginate]"
      by (auto simp add: remote_def split: prod.splits)
    with t1 have p2: "prefix (trace s @ [Call_boto3_client ''rds'']) (trace s2)"
      by simp
    show ?thesis
    proof (cases r2)
      case (Inl exc)
      with assms c Inr pg p2 show ?thesis by (simp add: handler_def Let_def)
    next
      case pages: (Inr pages)
      show ?thesis
      proof (cases "extend_pages pages []")
        case (Inl exc)
        with assms c Inr pg pages p2 show ?thesis by (simp add: handler_def Let_def)
      next
        case all: (Inr all_clusters)
        obtain r3 s3 where
          se: "select_eligible rds_client ?tag_key all_clusters [] s2 = (r3, s3)"
          by (cases "select_eligible rds_client ?tag_key all_clusters [] s2")
        from select_eligible_trace_mono [of s2 rds_client ?tag_key all_clusters "[]"] se
        have "prefix (trace s2) (trace s3)" by simp
        with p2 have p3: "prefix (trace s @ [Call_boto3_client ''rds'']) (trace s3)"
          by (rule prefix_order.trans)
        show ?thesis
        proof (cases r3)
          case (Inl exc)
          with assms c Inr pg pages all se p3 show ?thesis by (simp add: handler_def Let_def)
        next
          case el: (Inr eligible)
          obtain lists s4 where
            pa: "process_all env rds_client ?action eligible ([], [], []) s3 = (lists, s4)"
            by (cases "process_all env rds_client ?action eligible ([], [], []) s3")
          from process_all_trace_mono [of s3 env rds_client ?action eligible "([], [], [])"] pa
          have "prefix (trace s3) (trace s4)" by simp
          with p3 have "prefix (trace s @ [Call_boto3_client ''rds'']) (trace s4)"
            by (rule prefix_order.trans)
          with assms c Inr pg pages all se el pa show ?thesis
            by (cases lists) (simp add: handler_def Let_def split: prod.splits)
        qed
      qed
    qed
  qed
qed

subsection \<open>Well-formed inventories are processed to the end\<close>

lemma is_stoppable_cluster_total:
  assumes "''DBClusterIdentifier'' \<in> dom c"
  shows "\<exists>b. is_stoppable_cluster c = Inr b"
  using assms by (auto simp add: is_stoppable_cluster_def Let_def)

lemma extend_pages_total:
  assumes "\<forall>page \<in> set pages. \<exists>cs. page ''DBClusters'' = Some cs
             \<and> (\<forall>c \<in> set cs. ''DBClusterIdentifier'' \<in> dom c \<and> ''DBClusterArn'' \<in> dom c)"
      and "\<forall>c \<in> set acc. ''DBClusterIdentifier'' \<in> dom c \<and> ''DBClusterArn'' \<in> dom c"
  shows "\<exists>all_clusters. extend_pages pages acc = Inr all_clusters
           \<and> (\<forall>c \<in> set all_clusters.
                 ''DBClusterIdentifier'' \<in> dom c \<and> ''DBClusterArn'' \<in> dom c)"
  using assms
proof (induction pages arbitrary: acc)
  case Nil
  then show ?case by simp
next
  case (Cons page pages)
  from Cons.prems(1) obtain cs where
    cs: "page ''DBClusters'' = Some cs"
        "\<forall>c \<in> set cs. ''DBClusterIdentifier'' \<in> dom c \<and> ''DBClusterArn'' \<in> dom c"
    by auto
  from cs(2) Cons.prems(2)
  have "\<forall>c \<in> set (acc @ cs). ''DBClusterIdentifier'' \<in> dom c \<and> ''DBClusterArn'' \<in> dom c"
    by auto
  with Cons.prems(1) Cons.IH [of "acc @ cs"] cs(1) show ?case
    by simp
qed

lemma select_eligible_total:
  assumes "\<forall>c \<in> set clusters. ''DBClusterIdentifier'' \<in> dom c \<and> ''DBClusterArn'' \<in> dom c"
  shows "\<exists>eligible' s'. select_eligible rds_client tag_key clusters eligible s
                            = (Inr eligible', s')"
  using assms
proof (induction clusters arbitrary: eligible s)
  case Nil
  show ?case by simp
next
  case (Cons c clusters)
  from Cons.prems obtain cid arn where
    c: "c ''DBClusterIdentifier'' = Some cid" "c ''DBClusterArn'' = Some arn"
    by auto
  from c(1) is_stoppable_cluster_total [of c] obtain b where
    b: "is_stoppable_cluster c = Inr b"
    by auto
  obtain tagged s1 where t: "has_schedule_tag rds_client arn tag_key s = (tagged, s1)"
    by (cases "has_schedule_tag rds_client arn tag_key s")
  from Cons.prems have IH: "\<exists>eligible' s'. select_eligible rds_client tag_key clusters el t
                            = (Inr eligible', s')" for el t
    using Cons.IH [of el t] by simp
  show ?case
    using b c t IH [of eligible s] IH [of eligible s1] IH [of "eligible @ [cid]" s1]
    by (cases b; cases tagged) simp_all
qed

text \<open>
  Claim C8. \<open>handler\<close> raises the \<^verbatim>\<open>ValueError\<close> of an invalid action, leaving the
  state as it was (no client has been created and nothing has been called), exactly when
  the lowercased \<^verbatim>\<open>Action\<close> of the event is neither \<^verbatim>\<open>start\<close> nor \<^verbatim>\<open>stop\<close>. For a
  valid action the first call is the creation of the client; and when the client has
  been created and the inventory has been listed (every descriptor with its identifier
  and its ARN), the handler returns a report, whatever the lookups of tags, the reads of
  the status and the start and stop operations of the single clusters do.
\<close>

theorem handler_invalid_action:
  "(handler env event ctx s = (Inl (ValueError (invalid_action_message event)), s)
      \<longleftrightarrow> py_lower (dict_get event ''Action'' '''') \<notin> {ACTION_START, ACTION_STOP})
   \<and> (py_lower (dict_get event ''Action'' '''') \<in> {ACTION_START, ACTION_STOP}
      \<longrightarrow> prefix (trace s @ [Call_boto3_client ''rds''])
            (trace (snd (handler env event ctx s))))
   \<and> (py_lower (dict_get event ''Action'' '''') \<in> {ACTION_START, ACTION_STOP}
      \<and> boto3_client env ''rds'' (world s) = (Inr rds_client, w1)
      \<and> paginate rds_client w1 = (Inr pages, w2)
      \<and> (\<forall>page \<in> set pages. \<exists>cs. page ''DBClusters'' = Some cs
            \<and> (\<forall>c \<in> set cs. ''DBClusterIdentifier'' \<in> dom c \<and> ''DBClusterArn'' \<in> dom c))
      \<longrightarrow> (\<exists>rep s'. handler env event ctx s = (Inr rep, s')))"
proof -
  let ?action = "py_lower (dict_get event ''Action'' '''')"
  let ?tag_key = "dict_get event ''ScheduleTagKey'' ''Schedule''"
  have a: "handler env event ctx s = (Inl (ValueError (invalid_action_message event)), s)"
    if "?action \<notin> {ACTION_START, ACTION_STOP}"
    using that by (rule handler_invalid)
  have b: "prefix (trace s @ [Call_boto3_client ''rds''])
             (trace (snd (handler env event ctx s)))"
    if "?action \<in> {ACTION_START, ACTION_STOP}"
    using that by (rule handler_valid_trace)
  have c: "handler env event ctx s \<noteq> (Inl (ValueError (invalid_action_message event)), s)"
    if "?action \<in> {ACTION_START, ACTION_STOP}"
  proof
    assume "handler env event ctx s = (Inl (ValueError (invalid_action_message event)), s)"
    with b [OF that] show False by simp
  qed
  have d: "\<exists>rep s'. handler env event ctx s = (Inr rep, s')"
    if v: "?action \<in> {ACTION_START, ACTION_STOP}"
      and cl: "boto3_client env ''rds'' (world s) = (Inr rds_client, w1)"
      and pg: "paginate rds_client w1 = (Inr pages, w2)"
      and wf: "\<forall>page \<in> set pages. \<exists>cs. page ''DBClusters'' = Some cs
            \<and> (\<forall>c \<in> set cs. ''DBClusterIdentifier'' \<in> dom c \<and> ''DBClusterArn'' \<in> dom c)"
  proof -
    let ?s1 = "\<lparr>world = w1, trace = trace s @ [Call_boto3_client ''rds'']\<rparr>"
    let ?s2 = "\<lparr>world = w2, trace = trace s @ [Call_boto3_client ''rds'', Call_paginate]\<rparr>"
    have r1: "remote (Call_boto3_client ''rds'') (boto3_client env ''rds'') s
                = (Inr rds_client, ?s1)"
      using cl by (simp add: remote_def)
    have r2: "remote Call_paginate (paginate rds_client) ?s1 = (Inr pages, ?s2)"
      using pg by (simp add: remote_def)
    from extend_pages_total [OF wf, of "[]"] obtain all_clusters where
      ep: "extend_pages pages [] = Inr all_clusters"
      and wfa: "\<forall>c \<in> set all_clusters.
                  ''DBClusterIdentifier'' \<in> dom c \<and> ''DBClusterArn'' \<in> dom c"
      by auto
    from select_eligible_total [OF wfa, of rds_client ?tag_key "[]" ?s2]
    obtain eligible s3 where
      se: "select_eligible rds_client ?tag_key all_clusters [] ?s2 = (Inr eligible, s3)"
      by auto
    obtain processed skipped failed s4 where
      "process_all env rds_client ?action eligible ([], [], []) s3
         = ((processed, skipped, failed), s4)"
      by (cases "process_all env rds_client ?action eligible ([], [], []) s3") auto
    with v r1 r2 ep se show ?thesis
      by (simp add: handler_def Let_def)
  qed
  from a b c d show ?thesis by blast
qed

subsection \<open>A run over the fleet\<close>

lemma fleet_inventory:
  "extend_pages fleet_pages []
     = Inr [serverless_cluster, provisioned_cluster, multi_az_cluster, aurora_cluster ''c4'',
            aurora_cluster ''c5'', aurora_cluster ''c6'', aurora_cluster ''c7'']"
  by (simp add: fleet_pages_def)

lemma fleet_stoppable:
  "is_stoppable_cluster serverless_cluster = Inr False"
  "is_stoppable_cluster provisioned_cluster = Inr True"
  "is_stoppable_cluster multi_az_cluster = Inr False"
  "is_stoppable_cluster (aurora_cluster cid) = Inr True"
  by (simp_all add: is_stoppable_cluster_def is_multi_az_db_cluster_def dict_get_def
        serverless_cluster_def provisioned_cluster_def multi_az_cluster_def
        aurora_cluster_def py_lower_def lower_char_def UNSTOPPABLE_ENGINE_MODES_def)

lemma fleet_fields:
  "provisioned_cluster ''DBClusterArn'' = Some ''arn:c2''"
  "provisioned_cluster ''DBClusterIdentifier'' = Some ''c2''"
  "aurora_cluster cid ''DBClusterArn'' = Some (''arn:'' @ cid)"
  "aurora_cluster cid ''DBClusterIdentifier'' = Some cid"
  by (simp_all add: provisioned_cluster_def aurora_cluster_def)

lemma fleet_tags:
  "has_schedule_tag fleet_client ''arn:c2'' ''Schedule'' s
     = (True, \<lparr>world = (), trace = trace s @ [Call_list_tags_for_resource ''arn:c2'']\<rparr>)"
  "has_schedule_tag fleet_client ''arn:c4'' ''Schedule'' s
     = (False, \<lparr>world = (), trace = trace s @ [Call_list_tags_for_resource ''arn:c4'']\<rparr>)"
  "has_schedule_tag fleet_client ''arn:c5'' ''Schedule'' s
     = (True, \<lparr>world = (), trace = trace s @ [Call_list_tags_for_resource ''arn:c5'']\<rparr>)"
  "has_schedule_tag fleet_client ''arn:c6'' ''Schedule'' s
     = (True, \<lparr>world = (), trace = trace s @ [Call_list_tags_for_resource ''arn:c6'']\<rparr>)"
  "has_schedule_tag fleet_client ''arn:c7'' ''Schedule'' s
     = (False, \<lparr>world = (), trace = trace s @ [Call_list_tags_for_resource ''arn:c7'']\<rparr>)"
  by (simp_all add: has_schedule_tag_def has_schedule_tag_try_def remote_def
        fleet_client_def fake_client_def tag_response_def)

lemma fleet_eligible:
  "select_eligible fleet_client ''Schedule''
     [serverless_cluster, provisioned_cluster, multi_az_cluster, aurora_cluster ''c4'',
      aurora_cluster ''c5'', aurora_cluster ''c6'', aurora_cluster ''c7''] []
     \<lparr>world = (), trace = [Call_boto3_client ''rds'', Call_paginate]\<rparr>
   = (Inr [''c2'', ''c5'', ''c6''],
      \<lparr>world = (),
       trace = [Call_boto3_client ''rds'', Call_paginate,
                Call_list_tags_for_resource ''arn:c2'', Call_list_tags_for_resource ''arn:c4'',
                Call_list_tags_for_resource ''arn:c5'', Call_list_tags_for_resource ''arn:c6'',
                Call_list_tags_for_resource ''arn:c7'']\<rparr>)"
  by (simp add: fleet_stoppable fleet_fields fleet_tags)

lemma fleet_process:
  "process_cluster (fake_env fleet_client) fleet_client ''c2'' ''stop'' s
     = (\<lparr>cluster_id = ''c2'', outcome = ''processed'',
         message = ''Action '' @ quoted ''stop'' @ '' initiated successfully.'',
         status = ''available''\<rparr>,
        \<lparr>world = (),
         trace = trace s @ [Call_describe_db_clusters ''c2'', Call_stop_db_cluster ''c2'',
                            Sleep 1, Call_describe_db_clusters ''c2'']\<rparr>)"
  "process_cluster (fake_env fleet_client) fleet_client ''c5'' ''stop'' s
     = (\<lparr>cluster_id = ''c5'', outcome = ''skipped'',
         message = ''Already '' @ quoted ''stopping'' @ '' '' @ em_dash @ '' no action needed.'',
         status = ''stopping''\<rparr>,
        \<lparr>world = (), trace = trace s @ [Call_describe_db_clusters ''c5'']\<rparr>)"
  "process_cluster (fake_env fleet_client) fleet_client ''c6'' ''stop'' s
     = (\<lparr>cluster_id = ''c6'', outcome = ''failed'', message = ''timeout'', status = ''''\<rparr>,
        \<lparr>world = (), trace = trace s @ [Call_describe_db_clusters ''c6'']\<rparr>)"
  unfolding process_cluster_def perform_action_with_retry_def attempts_range
  by (simp_all add: transition_guard_def on_exception_def attempt_try_def api_call_def
        fetch_status_def remote_def sleep_def fleet_client_def fake_client_def fake_env_def
        status_response_def ACTION_START_def ACTION_STOP_def STATUS_AVAILABLE_def
        STATUS_STOPPED_def STATUS_STARTING_def STATUS_STOPPING_def)

lemma fleet_run:
  "handler (fake_env fleet_client) [''Action'' \<mapsto> ''Stop''] () s0
     = (Inr \<lparr>ProcessedClusters = [''c2''], SkippedClusters = [''c5''],
             FailedClusters = [''c6'']\<rparr>,
        \<lparr>world = (),
         trace = [Call_boto3_client ''rds'', Call_paginate,
                  Call_list_tags_for_resource ''arn:c2'', Call_list_tags_for_resource ''arn:c4'',
                  Call_list_tags_for_resource ''arn:c5'', Call_list_tags_for_resource ''arn:c6'',
                  Call_list_tags_for_resource ''arn:c7'',
                  Call_describe_db_clusters ''c2'', Call_stop_db_cluster ''c2'', Sleep 1,
                  Call_describe_db_clusters ''c2'', Call_describe_db_clusters ''c5'',
                  Call_describe_db_clusters ''c6'']\<rparr>)"
proof -
  have act: "py_lower (dict_get [''Action'' \<mapsto> ''Stop''] ''Action'' '''') = ''stop''"
    by (simp add: dict_get_def py_lower_def lower_char_def)
  have key: "dict_get [''Action'' \<mapsto> ''Stop''] ''ScheduleTagKey'' ''Schedule'' = ''Schedule''"
    by (simp add: dict_get_def)
  have r1: "remote (Call_boto3_client ''rds'') (boto3_client (fake_env fleet_client) ''rds'') s0
              = (Inr fleet_client, \<lparr>world = (), trace = [Call_boto3_client ''rds'']\<rparr>)"
    by (simp add: remote_def fake_env_def s0_def)
  have r2: "remote Call_paginate (paginate fleet_client)
              \<lparr>world = (), trace = [Call_boto3_client ''rds'']\<rparr>
              = (Inr fleet_pages,
                 \<lparr>world = (), trace = [Call_boto3_client ''rds'', Call_paginate]\<rparr>)"
    by (simp add: remote_def fleet_client_def fake_client_def)
  show ?thesis
    unfolding handler_def act key Let_def
    by (simp add: r1 r2 fleet_inventory fleet_eligible fleet_process
          ACTION_START_def ACTION_STOP_def del: select_eligible.simps)
qed

theorem handler_invalid_action_witness:
  "py_lower (dict_get [''Action'' \<mapsto> ''pause''] ''Action'' '''') \<notin> {ACTION_START, ACTION_STOP}
   \<and> handler (fake_env fleet_client) [''Action'' \<mapsto> ''pause''] () s0
       = (Inl (ValueError (''Invalid Action '' @ quoted ''pause'' @ ''. Must be ''
                           @ quoted ''Start'' @ '' or '' @ quoted ''Stop'' @ ''.'')), s0)
   \<and> py_lower (dict_get [''Action'' \<mapsto> ''Stop''] ''Action'' '''') \<in> {ACTION_START, ACTION_STOP}
   \<and> handler (fake_env fleet_client) [''Action'' \<mapsto> ''Stop''] () s0
       \<noteq> (Inl (ValueError (invalid_action_message [''Action'' \<mapsto> ''Stop''])), s0)
   \<and> fst (handler (fake_env fleet_client) [''Action'' \<mapsto> ''Stop''] () s0)
       = Inr \<lparr>ProcessedClusters = [''c2''], SkippedClusters = [''c5''],
              FailedClusters = [''c6'']\<rparr>"
proof -
  have i: "py_lower (dict_get [''Action'' \<mapsto> ''pause''] ''Action'' '''')
             \<notin> {ACTION_START, ACTION_STOP}"
    by (simp add: dict_get_def py_lower_def lower_char_def ACTION_START_def ACTION_STOP_def)
  have v: "py_lower (dict_get [''Action'' \<mapsto> ''Stop''] ''Action'' '''')
             \<in> {ACTION_START, ACTION_STOP}"
    by (simp add: dict_get_def py_lower_def lower_char_def ACTION_START_def ACTION_STOP_def)
  have m: "invalid_action_message [''Action'' \<mapsto> ''pause'']
             = ''Invalid Action '' @ quoted ''pause'' @ ''. Must be ''
               @ quoted ''Start'' @ '' or '' @ quoted ''Stop'' @ ''.''"
    by (simp add: invalid_action_message_def dict_get_def)
  note th1 = handler_invalid_action
               [where env = "fake_env fleet_client" and event = "[''Action'' \<mapsto> ''pause'']"
                  and ctx = "()" and s = s0, THEN conjunct1]
  note th2 = handler_invalid_action
               [where env = "fake_env fleet_client" and event = "[''Action'' \<mapsto> ''Stop'']"
                  and ctx = "()" and s = s0, THEN conjunct1]
  from th1 i m
  have a: "handler (fake_env fleet_client) [''Action'' \<mapsto> ''pause''] () s0
       = (Inl (ValueError (''Invalid Action '' @ quoted ''pause'' @ ''. Must be ''
                           @ quoted ''Start'' @ '' or '' @ quoted ''Stop'' @ ''.'')), s0)"
    by simp
  from th2 v
  have b: "handler (fake_env fleet_client) [''Action'' \<mapsto> ''Stop''] () s0
       \<noteq> (Inl (ValueError (invalid_action_message [''Action'' \<mapsto> ''Stop''])), s0)"
    by simp
  have c1: "boto3_client (fake_env fleet_client) ''rds'' (world s0) = (Inr fleet_client, ())"
    by (simp add: fake_env_def)
  have c2: "paginate fleet_client () = (Inr fleet_pages, ())"
    by (simp add: fleet_client_def fake_client_def)
  have wf: "\<forall>page \<in> set fleet_pages. \<exists>cs. page ''DBClusters'' = Some cs
              \<and> (\<forall>c \<in> set cs. ''DBClusterIdentifier'' \<in> dom c \<and> ''DBClusterArn'' \<in> dom c)"
    by (simp add: fleet_pages_def serverless_cluster_def provisioned_cluster_def
          multi_az_cluster_def aurora_cluster_def)
  note th3 = handler_invalid_action
               [where env = "fake_env fleet_client" and event = "[''Action'' \<mapsto> ''Stop'']"
                  and ctx = "()" and s = s0,
                THEN conjunct2, THEN conjunct2, THEN mp,
                OF conjI [OF v conjI [OF c1 conjI [OF c2 wf]]]]
  from i a v b th3 fleet_run show ?thesis
    by simp
qed

subsection \<open>The report partitions the eligible clusters\<close>











subsection \<open>The eligible list is exactly the list of the accepted clusters\<close>

text \<open>
  One pass of the selection loop over a descriptor \<open>c\<close> in the state \<open>s\<close> raises, or
  rejects \<open>c\<close>, or accepts it; it accepts exactly when \<open>is_stoppable_cluster\<close> returns
  True and \<open>has_schedule_tag\<close>, called in \<open>s\<close>, returns True.
\<close>

lemma select_eligible_step:
  obtains
    (raises) exc s1 where
      "\<And>clusters eligible.
         select_eligible rds_client tag_key (c # clusters) eligible s = (Inl exc, s1)"
  | (rejects) s1 where
      "\<And>clusters eligible.
         select_eligible rds_client tag_key (c # clusters) eligible s
           = select_eligible rds_client tag_key clusters eligible s1"
      "\<not> (is_stoppable_cluster c = Inr True
          \<and> (\<exists>arn. c ''DBClusterArn'' = Some arn
                \<and> fst (has_schedule_tag rds_client arn tag_key s)))"
  | (accepts) cid s1 where
      "\<And>clusters eligible.
         select_eligible rds_client tag_key (c # clusters) eligible s
           = select_eligible rds_client tag_key clusters (eligible @ [cid]) s1"
      "is_stoppable_cluster c = Inr True
       \<and> (\<exists>arn. c ''DBClusterArn'' = Some arn
             \<and> fst (has_schedule_tag rds_client arn tag_key s))"
      "c ''DBClusterIdentifier'' = Some cid"
proof (cases "is_stoppable_cluster c")
  case (Inl exc)
  then show ?thesis by (intro raises [of exc s]) simp
next
  case (Inr stoppable)
  show ?thesis
  proof (cases stoppable)
    case False
    with Inr show ?thesis by (intro rejects [of s]) simp_all
  next
    case True
    show ?thesis
    proof (cases "c ''DBClusterArn''")
      case None
      with Inr True show ?thesis by (intro raises [of "KeyError ''DBClusterArn''" s]) simp
    next
      case (Some arn)
      obtain tagged s1 where t: "has_schedule_tag rds_client arn tag_key s = (tagged, s1)"
        by (cases "has_schedule_tag rds_client arn tag_key s")
      show ?thesis
      proof (cases tagged)
        case False
        with Inr True Some t show ?thesis by (intro rejects [of s1]) simp_all
      next
        case tg: True
        show ?thesis
        proof (cases "c ''DBClusterIdentifier''")
          case None
          with Inr True Some t tg show ?thesis
            by (intro raises [of "KeyError ''DBClusterIdentifier''" s1]) simp
        next
          case cid: (Some cid)
          with Inr True Some t tg show ?thesis
            by (intro accepts [of cid s1]) simp_all
        qed
      qed
    qed
  qed
qed

lemma select_eligible_accumulates:
  "select_eligible rds_client tag_key clusters eligible s
     = (case select_eligible rds_client tag_key clusters [] s of
          (Inl exc, s') \<Rightarrow> (Inl exc, s')
        | (Inr ids, s') \<Rightarrow> (Inr (eligible @ ids), s'))"
proof (induction clusters arbitrary: eligible s)
  case Nil
  show ?case by simp
next
  case (Cons c clusters)
  show ?case
  proof (cases rule: select_eligible_step [of rds_client tag_key c s])
    case (raises exc s1)
    then show ?thesis by simp
  next
    case (rejects s1)
    from rejects(1) [of clusters eligible] rejects(1) [of clusters "[]"]
         Cons.IH [of eligible s1]
    show ?thesis by simp
  next
    case (accepts cid s1)
    obtain r t where r: "select_eligible rds_client tag_key clusters [] s1 = (r, t)"
      by (cases "select_eligible rds_client tag_key clusters [] s1")
    from accepts(1) [of clusters eligible] accepts(1) [of clusters "[]"]
         Cons.IH [of "eligible @ [cid]" s1] Cons.IH [of "[cid]" s1] r
    show ?thesis by (cases r) simp_all
  qed
qed






end
